theory Spec2Isabelle
  imports Complex_Main "HOL-Library.AList"
begin

section \<open>Session store (server/index.js)\<close>

text \<open>
  The server keeps one JavaScript object \<open>rooms\<close>, keyed by room id; every room owns an
  object \<open>users\<close>, keyed by user id. Both are plain objects (\<open>{}\<close>), so a read of a key
  that the object does not own falls through to \<open>Object.prototype\<close>.

  The own properties of such an object are modelled as an association list with
  distinct keys in property-creation order: assignment to a key is \<open>AList.update\<close>
  (an existing key keeps its place, a new key goes last), \<open>delete\<close> is
  \<open>AList.delete\<close>, and an own read is \<open>map_of\<close>. An assignment to the key \<open>__proto__\<close>
  creates no own property: it replaces the object's prototype. The list keeps that
  assignment under the key \<open>__proto__\<close>, which is what a read of that key then returns;
  enumeration leaves the key out.

  Room ids, user ids and socket ids are strings, as the clients send them. JavaScript
  numbers that hold positions and drifts are modelled as exact rationals;
  \<open>Date.now()\<close> readings are integers (milliseconds) and are passed to each handler as
  arguments, one per call site that the handler reaches. Informational \<open>console.log\<close>
  lines are left out unless they can throw; \<open>console.warn\<close> is kept as an effect.
  No handler catches an exception and the process installs no handler for uncaught
  ones; the model does not follow the server beyond an exception.
\<close>

type_synonym room_id = string
type_synonym user_id = string
type_synonym socket_id = string

datatype quality_level = good | fair | poor

record connection_quality =
  lastReportTime :: int
  averageDrift :: rat
  reportCount :: nat
  quality :: quality_level

record user =
  id_user :: user_id
  username :: string
  socketId :: socket_id
  connectionQuality :: "connection_quality option"

text \<open>A JSON value, and a JSON object as the list of its properties.\<close>

datatype jsval =
    JNull
  | JBool bool
  | JNum rat
  | JStr string
  | JArr "jsval list"
  | JObj "(string \<times> jsval) list"

type_synonym js_object = "(string \<times> jsval) list"

text \<open>
  \<open>VideoState\<close> as types/index.ts declares it, the three optional fields as options,
  together with the properties an object may carry beyond the interface (\<open>extra\<close>).
\<close>

record video_state =
  isPlaying :: bool
  playedSeconds :: rat
  url :: string
  lastUpdated :: int
  updatedBy :: string
  serverTimestamp :: "int option"
  isBuffering :: "bool option"
  playbackRate :: "rat option"
  extra :: "(string \<times> jsval) list"

text \<open>
  A chat message as the client sends it (\<open>msg_timestamp\<close> is whatever the client put
  there, if anything) and as the server stores and rebroadcasts it.
\<close>

record chat_message =
  msg_userId :: string
  msg_username :: string
  msg_text :: string
  msg_timestamp :: "int option"

record room =
  users :: "(user_id \<times> user) list"
  hostId :: user_id
  videoState :: video_state
  messages :: "chat_message list"
  createdAt :: int
  syncCheckpoint :: int

record server_state =
  rooms :: "(room_id \<times> room) list"
  totalRoomsCreated :: nat
  totalMessages :: nat

text \<open>The payload of a WebRTC signalling message; its \<open>data\<close> is opaque to the server.\<close>

record 'd signal_payload =
  sig_from :: user_id
  sig_type :: string
  sig_data :: 'd

record sync_correction =
  sc_playedSeconds :: rat
  sc_isPlaying :: bool
  sc_serverTimestamp :: int
  sc_drift :: rat
  sc_connectionQuality :: quality_level

record sync_snapshot =
  ss_videoState :: video_state
  ss_messages :: "chat_message list"
  ss_users :: "user list"
  ss_hostId :: user_id

text \<open>
  Where an emission goes: \<open>io.to(x)\<close> addresses the socket.io room \<open>x\<close> (a chat room's id,
  or a socket's own id, which is the private room of that one socket),
  \<open>socket.to(r)\<close> the room \<open>r\<close> without the sending socket, \<open>socket.emit\<close> the sending
  socket alone; \<open>ToUndefined\<close> is \<open>io.to(undefined)\<close>.
\<close>

datatype target =
    ToRoom room_id
  | ToSocket socket_id
  | ToRoomExcept room_id socket_id
  | ToSender socket_id
  | ToUndefined

text \<open>
  \<open>RawVideoStateMsg\<close> is a \<open>video-state\<close> emission whose payload is not a well-typed
  \<open>VideoState\<close>; it carries the object as it is.
\<close>

datatype 'd message =
    UpdateUsers "user list"
  | SyncState sync_snapshot
  | HostAssigned bool
  | UserConnected user_id
  | VideoStateMsg video_state
  | RawVideoStateMsg js_object
  | SyncCorrection sync_correction
  | UserBufferState user_id bool
  | ChatMessageMsg chat_message
  | SignalMsg "'d signal_payload"
  | UserDisconnected user_id
  | HostChanged user_id string

datatype 'd effect =
    Emit target "'d message"
  | Warn string

text \<open>
  How the handling of an event ends when it does not end in a store of the shape above.
  \<open>TypeError\<close>: an uncaught exception before the handler has changed the store or emitted
  anything. \<open>TypeErrorAfter\<close>: an uncaught exception after the handler has changed the
  store to the given one and produced the given effects. \<open>TypeErrorAfterMerge\<close>: the
  exception of line 194 or of line 200, thrown after line 186 has assigned the merge of
  the given patch, stamped with the given clock reading, to \<open>rooms[roomId].videoState\<close>,
  and before anything is emitted. \<open>Untyped\<close>: the handler returns normally with the given effects,
  but has written a value that the typed store does not hold: a property of an object
  reached through the prototype chain, or a declared field of another type than
  declared. The model follows the server no further than any of these.
\<close>

datatype 'd error =
    TypeError
  | TypeErrorAfter server_state "'d effect list"
  | TypeErrorAfterMerge room_id js_object int
  | Untyped "'d effect list"

type_synonym 'd outcome = "'d error + (server_state \<times> 'd effect list)"

subsection \<open>Plain objects\<close>

text \<open>
  The names every plain object inherits from \<open>Object.prototype\<close>. A read of one of them
  on an object that does not own it yields a builtin object (a function, or
  \<open>Object.prototype\<close> itself for \<open>__proto__\<close>), which is truthy and has none of the
  properties the handlers read.
\<close>

definition object_prototype_names :: "string list" where
  "object_prototype_names =
     [''constructor'', ''__defineGetter__'', ''__defineSetter__'', ''hasOwnProperty'',
      ''__lookupGetter__'', ''__lookupSetter__'', ''isPrototypeOf'', ''propertyIsEnumerable'',
      ''toString'', ''valueOf'', ''__proto__'', ''toLocaleString'']"

text \<open>
  \<open>Object.keys\<close> lists the own enumerable keys: first those that are array indices (the
  canonical decimal numerals below \<open>2^32 - 1\<close>) in ascending numeric order, then the
  others in creation order. \<open>Object.values\<close> and \<open>Object.entries\<close> follow the same order.
\<close>

definition is_digit :: "char \<Rightarrow> bool" where
  "is_digit c = (48 \<le> (of_char c :: nat) \<and> (of_char c :: nat) \<le> 57)"

definition decimal_value :: "string \<Rightarrow> nat" where
  "decimal_value k = foldl (\<lambda>n c. 10 * n + (of_char c - 48)) 0 k"

definition is_array_index :: "string \<Rightarrow> bool" where
  "is_array_index k =
     (k \<noteq> [] \<and> list_all is_digit k \<and> (k = ''0'' \<or> hd k \<noteq> CHR ''0'')
      \<and> decimal_value k < 4294967295)"

definition object_keys :: "(string \<times> 'a) list \<Rightarrow> string list" where
  "object_keys al =
     (let ks = filter (\<lambda>k. k \<noteq> ''__proto__'') (map fst al)
      in sort_key decimal_value (filter is_array_index ks)
         @ filter (\<lambda>k. \<not> is_array_index k) ks)"

definition object_values :: "(string \<times> 'a) list \<Rightarrow> 'a list" where
  "object_values al = List.map_filter (map_of al) (object_keys al)"

definition object_entries :: "(string \<times> 'a) list \<Rightarrow> (string \<times> 'a) list" where
  "object_entries al =
     List.map_filter (\<lambda>k. map_option (Pair k) (map_of al k)) (object_keys al)"

text \<open>What \<open>rooms[roomId]\<close> evaluates to.\<close>

datatype room_lookup = NoRoom | BuiltinRoom | OwnRoom room

definition get_room :: "server_state \<Rightarrow> room_id \<Rightarrow> room option" where
  "get_room s roomId = map_of (rooms s) roomId"

definition rooms_at :: "server_state \<Rightarrow> room_id \<Rightarrow> room_lookup" where
  "rooms_at s roomId =
     (case get_room s roomId of
        Some r \<Rightarrow> OwnRoom r
      | None \<Rightarrow> if roomId \<in> set object_prototype_names then BuiltinRoom else NoRoom)"

definition set_room :: "room_id \<Rightarrow> room \<Rightarrow> server_state \<Rightarrow> server_state" where
  "set_room roomId r s = s\<lparr>rooms := AList.update roomId r (rooms s)\<rparr>"

text \<open>
  What \<open>users[userId]\<close> evaluates to: the own entry; failing that, when an assignment to
  \<open>users['__proto__']\<close> has made a user entry the prototype of \<open>users\<close>, one of that
  entry's own properties (three strings, and its quality record once it has one);
  failing that, a builtin of \<open>Object.prototype\<close>; else \<open>undefined\<close>.
\<close>

datatype user_lookup =
    NoUser
  | BuiltinUser
  | InheritedString string
  | InheritedQuality connection_quality
  | OwnUser user

definition builtin_or_none :: "string \<Rightarrow> user_lookup" where
  "builtin_or_none k = (if k \<in> set object_prototype_names then BuiltinUser else NoUser)"

definition users_at :: "(user_id \<times> user) list \<Rightarrow> user_id \<Rightarrow> user_lookup" where
  "users_at us k =
     (case map_of us k of
        Some u \<Rightarrow> OwnUser u
      | None \<Rightarrow>
          (case map_of us ''__proto__'' of
             None \<Rightarrow> builtin_or_none k
           | Some p \<Rightarrow>
               if k = ''id'' then InheritedString (id_user p)
               else if k = ''username'' then InheritedString (username p)
               else if k = ''socketId'' then InheritedString (socketId p)
               else if k = ''connectionQuality''
               then (case connectionQuality p of
                       Some q \<Rightarrow> InheritedQuality q
                     | None \<Rightarrow> builtin_or_none k)
               else builtin_or_none k))"

text \<open>Whether the value is truthy: every object is, a string unless it is empty.\<close>

fun truthy_user :: "user_lookup \<Rightarrow> bool" where
  "truthy_user NoUser = False"
| "truthy_user (InheritedString str) = (str \<noteq> [])"
| "truthy_user _ = True"

subsection \<open>join-room\<close>

text \<open>
  The four clock readings are those of \<open>lastUpdated\<close>, \<open>serverTimestamp\<close>, \<open>createdAt\<close> and
  \<open>syncCheckpoint\<close>, taken only when the room is created.
\<close>

definition new_room :: "user_id \<Rightarrow> int \<Rightarrow> int \<Rightarrow> int \<Rightarrow> int \<Rightarrow> room" where
  "new_room userId t1 t2 t3 t4 =
     \<lparr>users = [],
      hostId = userId,
      videoState =
        \<lparr>isPlaying = False, playedSeconds = 0, url = [], lastUpdated = t1,
         updatedBy = [], serverTimestamp = Some t2, isBuffering = Some False,
         playbackRate = Some 1, extra = []\<rparr>,
      messages = [],
      createdAt = t3,
      syncCheckpoint = t4\<rparr>"

text \<open>
  When \<open>rooms[roomId]\<close> is a builtin the room is not created, \<open>rooms[roomId].users\<close> is
  \<open>undefined\<close> and the assignment of line 158 throws.
\<close>

definition join_room ::
  "socket_id \<Rightarrow> room_id \<Rightarrow> user_id \<Rightarrow> string \<Rightarrow> int \<Rightarrow> int \<Rightarrow> int \<Rightarrow> int \<Rightarrow>
   server_state \<Rightarrow> 'd outcome" where
  "join_room sid roomId userId uname t1 t2 t3 t4 s =
     (if rooms_at s roomId = BuiltinRoom then Inl TypeError
      else
        (let (r1, s1) =
               (case get_room s roomId of
                  None \<Rightarrow> (new_room userId t1 t2 t3 t4,
                            s\<lparr>totalRoomsCreated := Suc (totalRoomsCreated s)\<rparr>)
                | Some r \<Rightarrow> (r, s));
             r2 = r1\<lparr>users := AList.update userId
                      \<lparr>id_user = userId, username = uname, socketId = sid,
                       connectionQuality = None\<rparr> (users r1)\<rparr>
         in Inr (set_room roomId r2 s1,
              [Emit (ToRoom roomId) (UpdateUsers (object_values (users r2))),
               Emit (ToSender sid)
                 (SyncState \<lparr>ss_videoState = videoState r2, ss_messages = messages r2,
                             ss_users = object_values (users r2), ss_hostId = hostId r2\<rparr>)]
              @ (if hostId r2 = userId then [Emit (ToSender sid) (HostAssigned True)] else [])
              @ [Emit (ToRoomExcept roomId sid) (UserConnected userId)])))"

subsection \<open>video-state\<close>

text \<open>
  The payload's \<open>videoState\<close> is whatever JSON value the client sent. A JSON object is
  given by its members in the order of the text; where a name occurs twice the later
  member wins, as in \<open>JSON.parse\<close>. The own enumerable properties that \<open>{...value}\<close>
  copies: the members of an object, the elements of an array and the characters of a
  string under their indices, and nothing for a number, a boolean or \<open>null\<close>.
\<close>

fun show_nat :: "nat \<Rightarrow> string" where
  "show_nat n =
     (if n < 10 then [char_of (48 + n)]
      else show_nat (n div 10) @ [char_of (48 + n mod 10)])"

declare show_nat.simps [simp del]

fun own_properties :: "jsval \<Rightarrow> js_object" where
  "own_properties (JObj members) = members"
| "own_properties (JArr xs) = zip (map show_nat [0..<length xs]) xs"
| "own_properties (JStr str) = zip (map show_nat [0..<length str]) (map (\<lambda>c. JStr [c]) str)"
| "own_properties _ = []"

definition get_property :: "js_object \<Rightarrow> string \<Rightarrow> jsval option" where
  "get_property members k = map_of (rev members) k"

text \<open>
  The names the interface declares, and whether the patch gives each the declared type
  where it gives it at all; \<open>lastUpdated\<close> and \<open>serverTimestamp\<close> are overwritten whatever
  the patch holds there.
\<close>

definition declared_names :: "string list" where
  "declared_names =
     [''isPlaying'', ''playedSeconds'', ''url'', ''lastUpdated'', ''updatedBy'',
      ''serverTimestamp'', ''isBuffering'', ''playbackRate'']"

fun is_bool :: "jsval \<Rightarrow> bool" where
  "is_bool (JBool b) = True"
| "is_bool _ = False"

fun is_num :: "jsval \<Rightarrow> bool" where
  "is_num (JNum x) = True"
| "is_num _ = False"

fun is_str :: "jsval \<Rightarrow> bool" where
  "is_str (JStr x) = True"
| "is_str _ = False"

definition absent_or :: "(jsval \<Rightarrow> bool) \<Rightarrow> js_object \<Rightarrow> string \<Rightarrow> bool" where
  "absent_or ok patch k = (case get_property patch k of None \<Rightarrow> True | Some v \<Rightarrow> ok v)"

definition well_typed :: "js_object \<Rightarrow> bool" where
  "well_typed patch =
     (absent_or is_bool patch ''isPlaying'' \<and> absent_or is_num patch ''playedSeconds''
      \<and> absent_or is_str patch ''url'' \<and> absent_or is_str patch ''updatedBy''
      \<and> absent_or is_bool patch ''isBuffering'' \<and> absent_or is_num patch ''playbackRate'')"

text \<open>
  \<open>{...stored, ...patch}\<close> on lists of properties: every property of the patch is
  assigned to the copy of the stored object, in the patch's order.
\<close>

definition spread :: "('k \<times> 'v) list \<Rightarrow> ('k \<times> 'v) list \<Rightarrow> ('k \<times> 'v) list" where
  "spread stored patch = fold (\<lambda>(k, v). AList.update k v) patch stored"

text \<open>
  \<open>{...rooms[roomId].videoState, ...videoState, lastUpdated: now, serverTimestamp: now}\<close>
  for a stored state and a well-typed patch: a declared field that the patch gives
  replaces the stored one, the others stay, and the properties the interface does not
  declare are spread over the stored ones.
\<close>

definition merge_video_state :: "video_state \<Rightarrow> js_object \<Rightarrow> int \<Rightarrow> video_state" where
  "merge_video_state v patch now =
     \<lparr>isPlaying =
        (case get_property patch ''isPlaying'' of Some (JBool b) \<Rightarrow> b | _ \<Rightarrow> isPlaying v),
      playedSeconds =
        (case get_property patch ''playedSeconds'' of Some (JNum x) \<Rightarrow> x | _ \<Rightarrow> playedSeconds v),
      url = (case get_property patch ''url'' of Some (JStr x) \<Rightarrow> x | _ \<Rightarrow> url v),
      lastUpdated = now,
      updatedBy =
        (case get_property patch ''updatedBy'' of Some (JStr x) \<Rightarrow> x | _ \<Rightarrow> updatedBy v),
      serverTimestamp = Some now,
      isBuffering =
        (case get_property patch ''isBuffering'' of
           Some (JBool b) \<Rightarrow> Some b
         | _ \<Rightarrow> isBuffering v),
      playbackRate =
        (case get_property patch ''playbackRate'' of
           Some (JNum x) \<Rightarrow> Some x
         | _ \<Rightarrow> playbackRate v),
      extra = spread (extra v) (filter (\<lambda>p. fst p \<notin> set declared_names) patch)\<rparr>"

text \<open>The same expression on the objects themselves, for a state that is not well typed.\<close>

definition optional :: "string \<Rightarrow> 'a option \<Rightarrow> ('a \<Rightarrow> jsval) \<Rightarrow> js_object" where
  "optional k v f = (case v of None \<Rightarrow> [] | Some x \<Rightarrow> [(k, f x)])"

definition object_of_video_state :: "video_state \<Rightarrow> js_object" where
  "object_of_video_state v =
     [(''isPlaying'', JBool (isPlaying v)), (''playedSeconds'', JNum (playedSeconds v)),
      (''url'', JStr (url v)), (''lastUpdated'', JNum (of_int (lastUpdated v))),
      (''updatedBy'', JStr (updatedBy v))]
     @ optional ''serverTimestamp'' (serverTimestamp v) (\<lambda>t. JNum (of_int t))
     @ optional ''isBuffering'' (isBuffering v) JBool
     @ optional ''playbackRate'' (playbackRate v) JNum
     @ extra v"

definition merge_objects :: "js_object \<Rightarrow> js_object \<Rightarrow> int \<Rightarrow> js_object" where
  "merge_objects stored patch now =
     AList.update ''serverTimestamp'' (JNum (of_int now))
       (AList.update ''lastUpdated'' (JNum (of_int now)) (spread stored patch))"

text \<open>
  Lines 181 to 205. Line 186 assigns the merge. Line 194 reads \<open>videoState.isPlaying\<close>,
  which throws when the payload's \<open>videoState\<close> is \<open>null\<close> or missing. Line 200 logs
  \<open>rooms[roomId].videoState.playedSeconds.toFixed(2)\<close>, which throws unless the merged
  \<open>playedSeconds\<close> is a number; the stored one always is, so on a room it throws exactly
  when the patch gives \<open>playedSeconds\<close> another type. Line 203 emits the merge. When
  \<open>rooms[roomId]\<close> is a builtin the merge starts from nothing and is assigned to the
  builtin; line 200 then passes only if the patch itself gives a numeric
  \<open>playedSeconds\<close>.
\<close>

definition video_state_handler ::
  "room_id \<Rightarrow> jsval \<Rightarrow> int \<Rightarrow> server_state \<Rightarrow> 'd outcome" where
  "video_state_handler roomId payload now s =
     (let patch = own_properties payload in
      case rooms_at s roomId of
        NoRoom \<Rightarrow> Inr (s, [])
      | BuiltinRoom \<Rightarrow>
          (case get_property patch ''playedSeconds'' of
             Some (JNum x) \<Rightarrow>
               Inl (Untyped [Emit (ToRoom roomId) (RawVideoStateMsg (merge_objects [] patch now))])
           | _ \<Rightarrow> Inl (TypeErrorAfterMerge roomId patch now))
      | OwnRoom r \<Rightarrow>
          if payload = JNull \<or> \<not> absent_or is_num patch ''playedSeconds''
          then Inl (TypeErrorAfterMerge roomId patch now)
          else if \<not> well_typed patch
          then Inl (Untyped [Emit (ToRoom roomId)
                      (RawVideoStateMsg
                         (merge_objects (object_of_video_state (videoState r)) patch now))])
          else
            (let v = merge_video_state (videoState r) patch now
             in Inr (set_room roomId (r\<lparr>videoState := v\<rparr>) s,
                     [Emit (ToRoom roomId) (VideoStateMsg v)])))"

subsection \<open>position-report\<close>

text \<open>
  Lines 215 to 236: the quality record is created on the first report, then the count is
  incremented, the average recomputed and the level derived from the new average.
\<close>

definition fresh_quality :: "int \<Rightarrow> connection_quality" where
  "fresh_quality now =
     \<lparr>lastReportTime = now, averageDrift = 0, reportCount = 0, quality = good\<rparr>"

definition quality_of :: "rat \<Rightarrow> quality_level" where
  "quality_of avg = (if avg < 1 / 2 then good else if avg < 3 / 2 then fair else poor)"

definition update_quality :: "connection_quality option \<Rightarrow> rat \<Rightarrow> int \<Rightarrow> connection_quality" where
  "update_quality q0 drift now =
     (let q = (case q0 of None \<Rightarrow> fresh_quality now | Some q \<Rightarrow> q);
          n = Suc (reportCount q);
          avg = (averageDrift q * of_nat (n - 1) + drift) / of_nat n
      in \<lparr>lastReportTime = now, averageDrift = avg, reportCount = n,
          quality = quality_of avg\<rparr>)"

text \<open>
  \<open>now\<close> is the reading of line 212, \<open>now'\<close> the one that stamps the correction.
  When \<open>rooms[roomId]\<close> is a builtin, its \<open>videoState\<close> is \<open>undefined\<close> and line 211 throws.
  \<open>rooms[roomId].users[userId].connectionQuality\<close> throws when \<open>users[userId]\<close> is
  \<open>undefined\<close>. When it is an inherited string, the assignment of line 216 has no effect
  on the primitive and line 225 throws. When it is a builtin or an inherited quality
  record, lines 216 to 236 write the new record on that object, and nothing is emitted
  because the object has no \<open>socketId\<close>. \<open>if (targetSocketId)\<close> is false for the empty
  string.
\<close>

definition position_report ::
  "room_id \<Rightarrow> user_id \<Rightarrow> rat \<Rightarrow> bool \<Rightarrow> int \<Rightarrow> int \<Rightarrow> server_state \<Rightarrow> 'd outcome" where
  "position_report roomId userId played buffering now now' s =
     (case rooms_at s roomId of
        NoRoom \<Rightarrow> Inr (s, [])
      | BuiltinRoom \<Rightarrow> Inl TypeError
      | OwnRoom r \<Rightarrow>
          (case users_at (users r) userId of
             NoUser \<Rightarrow> Inl TypeError
           | InheritedString _ \<Rightarrow> Inl TypeError
           | BuiltinUser \<Rightarrow> Inl (Untyped [])
           | InheritedQuality _ \<Rightarrow> Inl (Untyped [])
           | OwnUser u \<Rightarrow>
               (let serverState = videoState r;
                    drift = \<bar>played - playedSeconds serverState\<bar>;
                    q = update_quality (connectionQuality u) drift now;
                    u' = u\<lparr>connectionQuality := Some q\<rparr>;
                    r' = r\<lparr>users := AList.update userId u' (users r)\<rparr>
                in Inr (set_room roomId r' s,
                     if drift > 3 / 10 \<and> isPlaying serverState \<and> \<not> buffering
                     then (if socketId u' \<noteq> []
                           then [Emit (ToSocket (socketId u'))
                                   (SyncCorrection
                                      \<lparr>sc_playedSeconds = playedSeconds serverState,
                                       sc_isPlaying = isPlaying serverState,
                                       sc_serverTimestamp = now',
                                       sc_drift = drift,
                                       sc_connectionQuality = quality q\<rparr>)]
                           else [])
                     else []))))"

subsection \<open>buffer-state\<close>

text \<open>
  \<open>rooms[roomId] && rooms[roomId].users[userId]\<close>: for a builtin room the second operand
  reads a property of \<open>undefined\<close> and throws.
\<close>

definition buffer_state ::
  "socket_id \<Rightarrow> room_id \<Rightarrow> user_id \<Rightarrow> bool \<Rightarrow> server_state \<Rightarrow> 'd outcome" where
  "buffer_state sid roomId userId buffering s =
     (case rooms_at s roomId of
        NoRoom \<Rightarrow> Inr (s, [])
      | BuiltinRoom \<Rightarrow> Inl TypeError
      | OwnRoom r \<Rightarrow>
          if truthy_user (users_at (users r) userId)
          then Inr (s, [Emit (ToRoomExcept roomId sid) (UserBufferState userId buffering)])
          else Inr (s, []))"

subsection \<open>chat-message\<close>

text \<open>For a builtin room \<open>rooms[roomId].messages\<close> is \<open>undefined\<close> and \<open>push\<close> throws.\<close>

definition chat_message_handler ::
  "room_id \<Rightarrow> chat_message \<Rightarrow> int \<Rightarrow> server_state \<Rightarrow> 'd outcome" where
  "chat_message_handler roomId message now s =
     (case rooms_at s roomId of
        NoRoom \<Rightarrow> Inr (s, [])
      | BuiltinRoom \<Rightarrow> Inl TypeError
      | OwnRoom r \<Rightarrow>
          (let msg = message\<lparr>msg_timestamp := Some now\<rparr>;
               pushed = messages r @ [msg];
               kept = (if length pushed > 100 then tl pushed else pushed)
           in Inr ((set_room roomId (r\<lparr>messages := kept\<rparr>) s)
                     \<lparr>totalMessages := Suc (totalMessages s)\<rparr>,
                   [Emit (ToRoom roomId) (ChatMessageMsg msg)])))"

subsection \<open>signal\<close>

text \<open>
  \<open>rooms[roomId] && rooms[roomId].users[to]\<close>, which throws for a builtin room. A truthy
  \<open>users[to]\<close> that is not an own entry has no \<open>socketId\<close>, and the signal is emitted to
  \<open>io.to(undefined)\<close>.
\<close>

definition signal_handler ::
  "room_id \<Rightarrow> user_id \<Rightarrow> 'd signal_payload \<Rightarrow> server_state \<Rightarrow> 'd outcome" where
  "signal_handler roomId to sg s =
     (case rooms_at s roomId of
        NoRoom \<Rightarrow>
          Inr (s, [Warn (''Target user '' @ to @ '' not found in room '' @ roomId)])
      | BuiltinRoom \<Rightarrow> Inl TypeError
      | OwnRoom r \<Rightarrow>
          (case users_at (users r) to of
             OwnUser u \<Rightarrow>
               Inr (s, [Emit (ToSocket (socketId u))
                          (SignalMsg \<lparr>sig_from = sig_from sg, sig_type = sig_type sg,
                                      sig_data = sig_data sg\<rparr>)])
           | other \<Rightarrow>
               if truthy_user other
               then Inr (s, [Emit ToUndefined
                               (SignalMsg \<lparr>sig_from = sig_from sg, sig_type = sig_type sg,
                                           sig_data = sig_data sg\<rparr>)])
               else Inr (s, [Warn (''Target user '' @ to @ '' not found in room '' @ roomId)])))"

subsection \<open>disconnecting\<close>

text \<open>
  \<open>Object.keys(users).find(key => users[key].socketId === socket.id)\<close>: the first key, in
  the order of \<open>Object.keys\<close>, whose entry points at the socket.
\<close>

definition find_user_by_socket :: "(user_id \<times> user) list \<Rightarrow> socket_id \<Rightarrow> user_id option" where
  "find_user_by_socket us sid =
     List.find (\<lambda>k. map_option socketId (map_of us k) = Some sid) (object_keys us)"

text \<open>
  The body of \<open>roomsJoined.forEach\<close> for one room id, given the store and the effects so
  far. \<open>if (userId)\<close> is false when no key was found and when the key found is the empty
  string. For a builtin room \<open>Object.keys(rooms[roomId].users)\<close> throws.
\<close>

definition leave_room ::
  "socket_id \<Rightarrow> room_id \<Rightarrow> server_state \<times> 'd effect list \<Rightarrow> 'd outcome" where
  "leave_room sid roomId acc =
     (let (s, out) = acc in
      case rooms_at s roomId of
        NoRoom \<Rightarrow> Inr (s, out)
      | BuiltinRoom \<Rightarrow> Inl (TypeErrorAfter s out)
      | OwnRoom r \<Rightarrow>
          (case find_user_by_socket (users r) sid of
             None \<Rightarrow> Inr (s, out)
           | Some userId \<Rightarrow>
               if userId = [] then Inr (s, out)
               else
                 (let wasHost = (hostId r = userId);
                      us = AList.delete userId (users r);
                      r1 = r\<lparr>users := us\<rparr>;
                      out1 = [Emit (ToRoom roomId) (UserDisconnected userId),
                              Emit (ToRoom roomId) (UpdateUsers (object_values us))];
                      (r2, out2) =
                        (case object_keys us of
                           newHostId # _ \<Rightarrow>
                             if wasHost
                             then (r1\<lparr>hostId := newHostId\<rparr>,
                                   (case map_of us newHostId of
                                      Some newHost \<Rightarrow>
                                        [Emit (ToRoom roomId)
                                           (HostChanged newHostId (username newHost)),
                                         Emit (ToSocket (socketId newHost)) (HostAssigned True)]
                                    | None \<Rightarrow> []))
                             else (r1, [])
                         | [] \<Rightarrow> (r1, []));
                      s' = (if object_keys us = []
                            then s\<lparr>rooms := AList.delete roomId (rooms s)\<rparr>
                            else set_room roomId r2 s)
                  in Inr (s', out @ out1 @ out2))))"

text \<open>
  \<open>roomsJoined\<close> is \<open>[...socket.rooms]\<close>, the rooms socket.io holds for the socket: its
  own id and every room id it joined. An exception ends the \<open>forEach\<close>.
\<close>

fun leave_rooms ::
  "socket_id \<Rightarrow> room_id list \<Rightarrow> server_state \<times> 'd effect list \<Rightarrow> 'd outcome" where
  "leave_rooms sid [] acc = Inr acc"
| "leave_rooms sid (roomId # roomIds) acc =
     (case leave_room sid roomId acc of
        Inl err \<Rightarrow> Inl err
      | Inr acc' \<Rightarrow> leave_rooms sid roomIds acc')"

definition disconnecting :: "socket_id \<Rightarrow> room_id list \<Rightarrow> server_state \<Rightarrow> 'd outcome" where
  "disconnecting sid roomsJoined s = leave_rooms sid roomsJoined (s, [])"

subsection \<open>Events and runs\<close>

datatype 'd event =
    JoinRoom socket_id room_id user_id string int int int int
  | VideoStateEv room_id jsval int
  | PositionReport room_id user_id rat bool int int
  | BufferState socket_id room_id user_id bool
  | ChatMessageEv room_id chat_message int
  | Signal room_id user_id "'d signal_payload"
  | Disconnecting socket_id "room_id list"

fun handle :: "'d event \<Rightarrow> server_state \<Rightarrow> 'd outcome" where
  "handle (JoinRoom sid roomId userId uname t1 t2 t3 t4) s =
     join_room sid roomId userId uname t1 t2 t3 t4 s"
| "handle (VideoStateEv roomId payload now) s = video_state_handler roomId payload now s"
| "handle (PositionReport roomId userId played buffering now now') s =
     position_report roomId userId played buffering now now' s"
| "handle (BufferState sid roomId userId buffering) s = buffer_state sid roomId userId buffering s"
| "handle (ChatMessageEv roomId message now) s = chat_message_handler roomId message now s"
| "handle (Signal roomId to sg) s = signal_handler roomId to sg s"
| "handle (Disconnecting sid roomsJoined) s = disconnecting sid roomsJoined s"

text \<open>
  Events are handled one at a time, each to completion; the run ends where the handling
  of an event does not end in a store. The effects of the run are those of its events,
  in order.
\<close>

fun run :: "'d event list \<Rightarrow> server_state \<Rightarrow> 'd outcome" where
  "run [] s = Inr (s, [])"
| "run (e # es) s =
     (case handle e s of
        Inl err \<Rightarrow> Inl err
      | Inr (s1, out1) \<Rightarrow>
          (case run es s1 of
             Inl err \<Rightarrow> Inl err
           | Inr (s2, out2) \<Rightarrow> Inr (s2, out1 @ out2)))"

definition initial_state :: server_state where
  "initial_state = \<lparr>rooms = [], totalRoomsCreated = 0, totalMessages = 0\<rparr>"

section \<open>Client synchronization controller (VideoPlayer component)\<close>

text \<open>
  What the sync effect of the component reads and writes. \<open>playerRef\<close> is \<open>None\<close> while no
  player is mounted, and otherwise holds what \<open>getCurrentTime()\<close> returns.
  \<open>localBuffering\<close> is set by \<open>onBuffer\<close> and cleared by \<open>onBufferEnd\<close>.
\<close>

record player_view =
  isReady :: bool
  playerRef :: "rat option"
  localBuffering :: bool
  isSeeking :: bool
  showSyncIndicator :: bool

text \<open>
  What the effect asks of its surroundings: \<open>playerRef.current.seekTo(t, 'seconds')\<close>, and
  the timeout (in milliseconds) after which \<open>isSeeking\<close> and the indicator are reset.
\<close>

datatype client_action = SeekTo rat | ResetAfter nat

text \<open>
  Lines 44 to 55. \<open>videoState.playedSeconds || 0\<close> is the number itself; an absent or zero
  \<open>serverTimestamp\<close> is falsy and switches the latency compensation off.
\<close>

definition adjusted_target :: "video_state \<Rightarrow> int \<Rightarrow> rat" where
  "adjusted_target vs now =
     (let targetTime = playedSeconds vs in
      case serverTimestamp vs of
        Some ts \<Rightarrow>
          if isPlaying vs \<and> ts \<noteq> 0
          then targetTime + min (of_int (now - ts) / 1000) 2
          else targetTime
      | None \<Rightarrow> targetTime)"

text \<open>Lines 40 to 88: the effect that runs when \<open>videoState\<close>, \<open>userId\<close> or \<open>isReady\<close> changes.\<close>

definition sync_effect ::
  "player_view \<Rightarrow> video_state option \<Rightarrow> user_id \<Rightarrow> int \<Rightarrow> player_view \<times> client_action list" where
  "sync_effect view vso userId now =
     (if \<not> isReady view then (view, [])
      else case playerRef view of
        None \<Rightarrow> (view, [])
      | Some currentTime \<Rightarrow>
          (case vso of
             None \<Rightarrow> (view, [])
           | Some vs \<Rightarrow>
               (let targetTime = playedSeconds vs;
                    adjustedTarget = adjusted_target vs now;
                    drift = \<bar>currentTime - adjustedTarget\<bar>;
                    shouldSync = (updatedBy vs \<noteq> userId \<or> \<bar>currentTime - targetTime\<bar> > 2)
                in if shouldSync \<and> drift > 3 / 10
                   then (view\<lparr>showSyncIndicator := True, isSeeking := True\<rparr>,
                         [SeekTo adjustedTarget, ResetAfter 1000])
                   else (view, []))))"

section \<open>Peer connection manager (hooks/useWebRTC.ts)\<close>

text \<open>
  The hook keeps two objects keyed by peer id in refs: \<open>peerConnections\<close> (of which the
  health sweep reads only each connection's \<open>connectionState\<close>) and \<open>reconnectTimeouts\<close>
  (the handle \<open>setTimeout\<close> returned). The timers of the environment are part of the
  model: \<open>timers\<close> holds those that were set and have neither fired nor been cleared,
  and \<open>nextHandle\<close> is the handle the next \<open>setTimeout\<close> returns. Handles are positive,
  so a stored handle is truthy.
\<close>

type_synonym peer_id = string

datatype conn_state = New | Connecting | Connected | Disconnected | Failed | Closed

record timer =
  handle_of :: nat
  peer_of :: peer_id
  delay_ms :: nat

record rtc_state =
  isPageVisible :: bool
  peerConnections :: "(peer_id \<times> conn_state) list"
  reconnectTimeouts :: "(peer_id \<times> nat) list"
  timers :: "timer list"
  nextHandle :: nat

definition set_timeout :: "peer_id \<Rightarrow> nat \<Rightarrow> rtc_state \<Rightarrow> nat \<times> rtc_state" where
  "set_timeout peerId ms s =
     (nextHandle s,
      s\<lparr>timers := timers s @ [\<lparr>handle_of = nextHandle s, peer_of = peerId, delay_ms = ms\<rparr>],
        nextHandle := Suc (nextHandle s)\<rparr>)"

definition clear_timeout :: "nat \<Rightarrow> rtc_state \<Rightarrow> rtc_state" where
  "clear_timeout h s = s\<lparr>timers := filter (\<lambda>t. handle_of t \<noteq> h) (timers s)\<rparr>"

text \<open>
  Both objects are plain ones: for a peer id that is a name of \<open>Object.prototype\<close> and
  not an own key, a read yields a builtin, which is truthy.

  Lines 316 to 327: the body of the sweep's \<open>forEach\<close> for one entry.
\<close>

definition sweep_peer :: "peer_id \<times> conn_state \<Rightarrow> rtc_state \<Rightarrow> rtc_state" where
  "sweep_peer entry s =
     (let (peerId, state) = entry in
      if state = Failed \<or> state = Disconnected
      then (case map_of (reconnectTimeouts s) peerId of
              None \<Rightarrow>
                if peerId \<in> set object_prototype_names then s
                else
                  (let (h, s1) = set_timeout peerId 2000 s
                   in s1\<lparr>reconnectTimeouts := AList.update peerId h (reconnectTimeouts s1)\<rparr>)
            | Some _ \<Rightarrow> s)
      else s)"

text \<open>Lines 312 to 329: one tick of the 3000 ms interval.\<close>

definition health_sweep :: "rtc_state \<Rightarrow> rtc_state" where
  "health_sweep s =
     (if \<not> isPageVisible s then s
      else fold sweep_peer (object_entries (peerConnections s)) s)"

text \<open>
  Lines 33 to 49, as far as the two refs go. For a builtin \<open>pc.close()\<close> throws, before
  anything is changed.
\<close>

definition cleanupPeerConnection :: "peer_id \<Rightarrow> rtc_state \<Rightarrow> rtc_state" where
  "cleanupPeerConnection peerId s =
     (case map_of (peerConnections s) peerId of
        None \<Rightarrow> s
      | Some _ \<Rightarrow> s\<lparr>peerConnections := AList.delete peerId (peerConnections s)\<rparr>)"

text \<open>
  Lines 288 to 298: what \<open>reconnectPeer\<close> does before it first awaits. The call it may
  make half a second later is \<open>startCall\<close>, which reaches \<open>createPeerConnection\<close>. For
  a builtin \<open>clearTimeout\<close> and \<open>delete\<close> change nothing.
\<close>

definition reconnectPeer :: "peer_id \<Rightarrow> rtc_state \<Rightarrow> rtc_state" where
  "reconnectPeer peerId s =
     cleanupPeerConnection peerId
       (case map_of (reconnectTimeouts s) peerId of
          None \<Rightarrow> s
        | Some h \<Rightarrow>
            (clear_timeout h s)\<lparr>reconnectTimeouts := AList.delete peerId (reconnectTimeouts s)\<rparr>)"

text \<open>A timer that is due fires: it leaves the environment's list and its callback runs.\<close>

definition fire_timer :: "nat \<Rightarrow> rtc_state \<Rightarrow> rtc_state" where
  "fire_timer h s =
     (case List.find (\<lambda>t. handle_of t = h) (timers s) of
        None \<Rightarrow> s
      | Some t \<Rightarrow> reconnectPeer (peer_of t) (clear_timeout h s))"

text \<open>
  Lines 399 to 403: the cleanup of the visibility effect clears every timeout that
  \<open>reconnectTimeouts\<close> holds and leaves the object as it is.
\<close>

definition visibility_cleanup :: "rtc_state \<Rightarrow> rtc_state" where
  "visibility_cleanup s = fold clear_timeout (object_values (reconnectTimeouts s)) s"

text \<open>
  Lines 86 to 98 and 145: a usable connection is kept, otherwise a new one is stored. A
  builtin has no \<open>connectionState\<close>, so it passes for a usable connection and is
  returned.
\<close>

definition createPeerConnection :: "peer_id \<Rightarrow> rtc_state \<Rightarrow> rtc_state" where
  "createPeerConnection peerId s =
     (case map_of (peerConnections s) peerId of
        Some state \<Rightarrow>
          if state \<noteq> Closed \<and> state \<noteq> Failed then s
          else (let s1 = cleanupPeerConnection peerId s
                in s1\<lparr>peerConnections := AList.update peerId New (peerConnections s1)\<rparr>)
      | None \<Rightarrow>
          if peerId \<in> set object_prototype_names then s
          else s\<lparr>peerConnections := AList.update peerId New (peerConnections s)\<rparr>)"

text \<open>
  The browser moves a connection to another state (\<open>connectionState\<close> is read live from
  the connection), and lines 134 to 143, the \<open>onconnectionstatechange\<close> handler, drop a
  connection that it finds failed or closed.
\<close>

definition connection_state_change :: "peer_id \<Rightarrow> conn_state \<Rightarrow> rtc_state \<Rightarrow> rtc_state" where
  "connection_state_change peerId state s =
     (case map_of (peerConnections s) peerId of
        None \<Rightarrow> s
      | Some _ \<Rightarrow> s\<lparr>peerConnections := AList.update peerId state (peerConnections s)\<rparr>)"

definition onconnectionstatechange :: "peer_id \<Rightarrow> rtc_state \<Rightarrow> rtc_state" where
  "onconnectionstatechange peerId s =
     (case map_of (peerConnections s) peerId of
        None \<Rightarrow> s
      | Some state \<Rightarrow>
          if state = Failed \<or> state = Closed then cleanupPeerConnection peerId s else s)"

datatype rtc_event =
    Sweep
  | Fire nat
  | ReconnectPeer peer_id
  | VisibilityCleanup
  | CreatePeerConnection peer_id
  | ConnectionStateChange peer_id conn_state
  | OnConnectionStateChange peer_id
  | SetPageVisible bool

fun rtc_handle :: "rtc_event \<Rightarrow> rtc_state \<Rightarrow> rtc_state" where
  "rtc_handle Sweep s = health_sweep s"
| "rtc_handle (Fire h) s = fire_timer h s"
| "rtc_handle (ReconnectPeer peerId) s = reconnectPeer peerId s"
| "rtc_handle VisibilityCleanup s = visibility_cleanup s"
| "rtc_handle (CreatePeerConnection peerId) s = createPeerConnection peerId s"
| "rtc_handle (ConnectionStateChange peerId state) s = connection_state_change peerId state s"
| "rtc_handle (OnConnectionStateChange peerId) s = onconnectionstatechange peerId s"
| "rtc_handle (SetPageVisible b) s = s\<lparr>isPageVisible := b\<rparr>"

definition rtc_run :: "rtc_event list \<Rightarrow> rtc_state \<Rightarrow> rtc_state" where
  "rtc_run evs s = fold rtc_handle evs s"

definition rtc_initial :: rtc_state where
  "rtc_initial =
     \<lparr>isPageVisible = True, peerConnections = [], reconnectTimeouts = [], timers = [],
      nextHandle = 1\<rparr>"

section \<open>Vocabulary of the statements\<close>

subsection \<open>Session store\<close>

text \<open>
  A room is well formed when its users object has a key and its host is one of the
  keys; a store is well formed when every room it holds is. Whether an event is a join
  under a given user id.
\<close>

definition room_ok :: "room \<Rightarrow> bool" where
  "room_ok r \<longleftrightarrow> object_keys (users r) \<noteq> [] \<and> hostId r \<in> set (object_keys (users r))"

definition store_ok :: "server_state \<Rightarrow> bool" where
  "store_ok s \<longleftrightarrow> list_all (\<lambda>p. room_ok (snd p)) (rooms s)"

fun joins_as :: "user_id \<Rightarrow> 'd event \<Rightarrow> bool" where
  "joins_as userId (JoinRoom sid rid uid uname t1 t2 t3 t4) = (uid = userId)"
| "joins_as userId _ = False"

text \<open>
  A chat payload paired with the clock reading at which the server handles it, the
  message the server stores for it, and the events and emissions of a list of them.
\<close>

definition stamp :: "chat_message \<times> int \<Rightarrow> chat_message" where
  "stamp p = (fst p)\<lparr>msg_timestamp := Some (snd p)\<rparr>"

definition chat_events :: "room_id \<Rightarrow> (chat_message \<times> int) list \<Rightarrow> 'd event list" where
  "chat_events roomId ms = map (\<lambda>p. ChatMessageEv roomId (fst p) (snd p)) ms"

definition chat_emits :: "room_id \<Rightarrow> (chat_message \<times> int) list \<Rightarrow> 'd effect list" where
  "chat_emits roomId ms = map (\<lambda>p. Emit (ToRoom roomId) (ChatMessageMsg (stamp p))) ms"

definition most_recent :: "nat \<Rightarrow> 'a list \<Rightarrow> 'a list" where
  "most_recent n xs = drop (length xs - n) xs"

text \<open>
  For a position report by user \<open>u\<close> on room \<open>r\<close>: the correction the handler builds, and
  the room after the handler has updated the user's quality record.
\<close>

definition correction_for :: "room \<Rightarrow> user \<Rightarrow> rat \<Rightarrow> int \<Rightarrow> int \<Rightarrow> sync_correction" where
  "correction_for r u played now now' =
     \<lparr>sc_playedSeconds = playedSeconds (videoState r),
      sc_isPlaying = isPlaying (videoState r),
      sc_serverTimestamp = now',
      sc_drift = \<bar>played - playedSeconds (videoState r)\<bar>,
      sc_connectionQuality =
        quality (update_quality (connectionQuality u) \<bar>played - playedSeconds (videoState r)\<bar> now)\<rparr>"

definition reported :: "room \<Rightarrow> user_id \<Rightarrow> user \<Rightarrow> rat \<Rightarrow> int \<Rightarrow> room" where
  "reported r userId u played now =
     r\<lparr>users := AList.update userId
          (u\<lparr>connectionQuality :=
               Some (update_quality (connectionQuality u) \<bar>played - playedSeconds (videoState r)\<bar> now)\<rparr>)
          (users r)\<rparr>"

text \<open>
  A report is the reported position, the buffering flag and the handler's two clock
  readings; its drift is taken against the room's stored position. The count and the
  sum of the drifts that a quality record stands for.
\<close>

type_synonym report = "rat \<times> bool \<times> int \<times> int"

definition report_events :: "room_id \<Rightarrow> user_id \<Rightarrow> report list \<Rightarrow> 'd event list" where
  "report_events roomId userId reports =
     map (\<lambda>(played, buffering, now, now'). PositionReport roomId userId played buffering now now') reports"




text \<open>
  The entry a room's users object owns under a user id. Whether an event is a join of
  that user id to that room. The drift of an event that is a position report of that
  user on that room, against the position stored when the report is handled, and the
  drifts of all such reports in a run of events.
\<close>

definition entry_of :: "server_state \<Rightarrow> room_id \<Rightarrow> user_id \<Rightarrow> user option" where
  "entry_of s roomId userId =
     (case get_room s roomId of None \<Rightarrow> None | Some r \<Rightarrow> map_of (users r) userId)"

fun joins :: "room_id \<Rightarrow> user_id \<Rightarrow> 'd event \<Rightarrow> bool" where
  "joins roomId userId (JoinRoom sid rid uid uname t1 t2 t3 t4) = (rid = roomId \<and> uid = userId)"
| "joins roomId userId _ = False"




subsection \<open>Peer connection manager\<close>

text \<open>
  The environment's timers that are set for a peer, and the relation between those
  timers and the handles the hook has recorded: handles are distinct, each is older
  than the next handle, and \<open>reconnectTimeouts\<close> holds the handle of every timer that is
  still set under the timer's peer.
\<close>

definition timers_for :: "peer_id \<Rightarrow> rtc_state \<Rightarrow> timer list" where
  "timers_for peerId s = filter (\<lambda>t. peer_of t = peerId) (timers s)"

definition timers_tracked :: "rtc_state \<Rightarrow> bool" where
  "timers_tracked s \<longleftrightarrow>
     distinct (map handle_of (timers s))
     \<and> list_all (\<lambda>t. handle_of t < nextHandle s
                    \<and> map_of (reconnectTimeouts s) (peer_of t) = Some (handle_of t)) (timers s)"

text \<open>No connection is stored under a name that the object inherits.\<close>

definition connections_own :: "rtc_state \<Rightarrow> bool" where
  "connections_own s \<longleftrightarrow>
     list_all (\<lambda>entry. fst entry \<notin> set object_prototype_names) (peerConnections s)"

subsection \<open>Sample data\<close>

definition amy :: user where
  "amy = \<lparr>id_user = ''amy'', username = ''Amy'', socketId = ''sockA'', connectionQuality = None\<rparr>"

definition bob :: user where
  "bob = \<lparr>id_user = ''bob'', username = ''Bob'', socketId = ''sockB'', connectionQuality = None\<rparr>"

definition cat :: user where
  "cat = \<lparr>id_user = ''cat'', username = ''Cat'', socketId = ''sockC'', connectionQuality = None\<rparr>"

definition demo_video :: video_state where
  "demo_video =
     \<lparr>isPlaying = True, playedSeconds = 120, url = ''https://example.org/film.mp4'',
      lastUpdated = 1000, updatedBy = ''amy'', serverTimestamp = Some 1000,
      isBuffering = Some False, playbackRate = Some 1, extra = []\<rparr>"

definition own_video :: video_state where
  "own_video =
     \<lparr>isPlaying = True, playedSeconds = 100, url = ''https://example.org/film.mp4'',
      lastUpdated = 1000, updatedBy = ''amy'', serverTimestamp = Some 1000,
      isBuffering = Some False, playbackRate = Some 1, extra = []\<rparr>"

definition demo_room :: room where
  "demo_room =
     \<lparr>users = [(''amy'', amy), (''bob'', bob)], hostId = ''amy'', videoState = demo_video,
      messages = [], createdAt = 0, syncCheckpoint = 0\<rparr>"

definition demo_state :: server_state where
  "demo_state = \<lparr>rooms = [(''r1'', demo_room)], totalRoomsCreated = 1, totalMessages = 0\<rparr>"

definition demo_trace :: "unit event list" where
  "demo_trace =
     [JoinRoom ''sockA'' ''r1'' ''amy'' ''Amy'' 0 0 0 0,
      JoinRoom ''sockB'' ''r1'' ''bob'' ''Bob'' 1 1 1 1,
      JoinRoom ''sockC'' ''r1'' ''cat'' ''Cat'' 2 2 2 2,
      Disconnecting ''sockA'' [''sockA'', ''r1'']]"

definition demo_patch :: jsval where
  "demo_patch =
     JObj [(''isPlaying'', JBool True), (''playedSeconds'', JNum 12), (''updatedBy'', JStr ''bob'')]"



definition demo_chat :: chat_message where
  "demo_chat =
     \<lparr>msg_userId = ''bob'', msg_username = ''Bob'', msg_text = ''hi'', msg_timestamp = None\<rparr>"

definition demo_signal :: "unit signal_payload" where
  "demo_signal = \<lparr>sig_from = ''bob'', sig_type = ''offer'', sig_data = ()\<rparr>"

definition ready_view :: "rat \<Rightarrow> bool \<Rightarrow> player_view" where
  "ready_view currentTime buffering =
     \<lparr>isReady = True, playerRef = Some currentTime, localBuffering = buffering,
      isSeeking = False, showSyncIndicator = False\<rparr>"



definition stale_rtc_events :: "rtc_event list" where
  "stale_rtc_events =
     [CreatePeerConnection ''bob'', ConnectionStateChange ''bob'' Disconnected, Sweep,
      VisibilityCleanup]"


definition eve :: user where
  "eve = \<lparr>id_user = ''__proto__'', username = ''Eve'', socketId = ''sockE'',
           connectionQuality = None\<rparr>"

definition eve_room :: room where
  "eve_room = (new_room ''__proto__'' 0 0 0 0)\<lparr>users := [(''__proto__'', eve)]\<rparr>"

definition eve_state :: server_state where
  "eve_state = \<lparr>rooms = [(''r1'', eve_room)], totalRoomsCreated = 1, totalMessages = 0\<rparr>"



section \<open>Properties of the session store\<close>

subsection \<open>Reading and writing rooms\<close>

lemma get_set_room_same: "get_room (set_room k r s) k = Some r"
  by (simp add: get_room_def set_room_def update_conv')



lemma get_room_totalMessages_update [simp]:
  "get_room (s\<lparr>totalMessages := n\<rparr>) k = get_room s k"
  by (simp add: get_room_def)

lemma get_room_totalRoomsCreated_update [simp]:
  "get_room (s\<lparr>totalRoomsCreated := n\<rparr>) k = get_room s k"
  by (simp add: get_room_def)


lemma rooms_at_own: "get_room s roomId = Some r \<Longrightarrow> rooms_at s roomId = OwnRoom r"
  by (simp add: rooms_at_def)

lemma rooms_at_own_iff: "rooms_at s roomId = OwnRoom r \<longleftrightarrow> get_room s roomId = Some r"
  by (simp add: rooms_at_def split: option.splits)

lemma users_at_own: "map_of us k = Some u \<Longrightarrow> users_at us k = OwnUser u"
  by (simp add: users_at_def)


lemma demo_get_room: "get_room demo_state ''r1'' = Some demo_room"
  by (simp add: get_room_def demo_state_def)

subsection \<open>Joining a room that exists\<close>




subsection \<open>The chat log\<close>

lemma most_recent_append:
  "most_recent n (most_recent n xs @ ys) = most_recent n (xs @ ys)"
  by (cases "length xs \<le> n") (auto simp: most_recent_def add.commute)

lemma length_most_recent: "length (most_recent n xs) = min (length xs) n"
  by (auto simp: most_recent_def)

lemma kept_most_recent:
  assumes "length xs \<le> 100"
  shows "(if 100 < length (xs @ [x]) then tl (xs @ [x]) else xs @ [x]) = most_recent 100 (xs @ [x])"
proof (cases "length xs = 100")
  case True
  then have "xs \<noteq> []" by auto
  with True show ?thesis by (simp add: most_recent_def drop_Suc)
next
  case False
  with assms have "length xs < 100" by simp
  then show ?thesis by (simp add: most_recent_def)
qed

lemma chat_step:
  assumes "get_room s roomId = Some r" and "length (messages r) \<le> 100"
  shows "chat_message_handler roomId m t s =
           (Inr ((set_room roomId (r\<lparr>messages := most_recent 100 (messages r @ [stamp (m, t)])\<rparr>) s)
                   \<lparr>totalMessages := Suc (totalMessages s)\<rparr>,
                 [Emit (ToRoom roomId) (ChatMessageMsg (stamp (m, t)))]) :: 'd outcome)"
proof -
  have st: "stamp (m, t) = m\<lparr>msg_timestamp := Some t\<rparr>" by (simp add: stamp_def)
  show ?thesis
    unfolding chat_message_handler_def Let_def st
    by (simp only: rooms_at_own [OF assms(1)] room_lookup.case kept_most_recent [OF assms(2)])
qed

lemma chat_run:
  assumes "get_room s roomId = Some r" and "length (messages r) \<le> 100"
  shows "\<exists>s' r'. run (chat_events roomId ms) s = (Inr (s', chat_emits roomId ms) :: 'd outcome)
           \<and> get_room s' roomId = Some r'
           \<and> messages r' = most_recent 100 (messages r @ map stamp ms)"
  using assms
proof (induction ms arbitrary: s r)
  case Nil
  then show ?case by (simp add: chat_events_def chat_emits_def most_recent_def)
next
  case (Cons p ms)
  let ?r1 = "r\<lparr>messages := most_recent 100 (messages r @ [stamp p])\<rparr>"
  let ?s1 = "(set_room roomId ?r1 s)\<lparr>totalMessages := Suc (totalMessages s)\<rparr>"
  have step: "chat_message_handler roomId (fst p) (snd p) s =
      (Inr (?s1, [Emit (ToRoom roomId) (ChatMessageMsg (stamp p))]) :: 'd outcome)"
    using chat_step [OF Cons.prems, of "fst p" "snd p"] by simp
  have g1: "get_room ?s1 roomId = Some ?r1" by (simp add: get_set_room_same)
  have l1: "length (messages ?r1) \<le> 100" by (simp add: length_most_recent)
  obtain s' r' where
    r: "run (chat_events roomId ms) ?s1 = (Inr (s', chat_emits roomId ms) :: 'd outcome)"
    and g: "get_room s' roomId = Some r'"
    and m: "messages r' = most_recent 100 (messages ?r1 @ map stamp ms)"
    using Cons.IH [OF g1 l1] by blast
  have "messages r' = most_recent 100 (messages r @ map stamp (p # ms))"
    using m most_recent_append [of 100 "messages r @ [stamp p]" "map stamp ms"] by simp
  moreover have "run (chat_events roomId (p # ms)) s = (Inr (s', chat_emits roomId (p # ms)) :: 'd outcome)"
    using step r by (simp add: chat_events_def chat_emits_def)
  ultimately show ?case using g by blast
qed

text \<open>
  C6. Starting from a room whose log is empty, as every new room's is, handle \<open>N\<close> chat
  messages one after the other. All are handled (the run does not fail), the stored log
  then has \<open>min N 100\<close> entries, and it is the list of the messages in arrival order, each
  with the timestamp the server gave it on receipt, without its first \<open>N - 100\<close> entries
  when \<open>N\<close> exceeds 100. The effects of the run are exactly one emission per message, to
  the whole room, of that stamped message.
\<close>

theorem chat_log_bounded:
  assumes "get_room s roomId = Some r" and "messages r = []"
  shows "\<exists>s' r'. run (chat_events roomId ms) s = (Inr (s', chat_emits roomId ms) :: 'd outcome)
           \<and> get_room s' roomId = Some r'
           \<and> length (messages r') = min (length ms) 100
           \<and> messages r' = drop (length ms - 100) (map stamp ms)"
proof -
  have "length (messages r) \<le> 100" using assms(2) by simp
  from chat_run [OF assms(1) this, of ms] assms(2) show ?thesis
    by (auto simp: most_recent_def min_def)
qed

theorem chat_log_bounded_witness:
  "get_room demo_state ''r1'' = Some demo_room \<and> messages demo_room = [] \<and>
   (\<exists>s' r'. run (chat_events ''r1'' [(demo_chat, 5), (demo_chat, 6)]) demo_state =
              (Inr (s', chat_emits ''r1'' [(demo_chat, 5), (demo_chat, 6)]) :: unit outcome)
         \<and> get_room s' ''r1'' = Some r'
         \<and> length (messages r') = 2
         \<and> messages r' = [demo_chat\<lparr>msg_timestamp := Some 5\<rparr>, demo_chat\<lparr>msg_timestamp := Some 6\<rparr>])"
proof -
  have h: "get_room demo_state ''r1'' = Some demo_room" by (rule demo_get_room)
  have e: "messages demo_room = []" by (simp add: demo_room_def)
  from chat_log_bounded [OF h e, of "[(demo_chat, 5), (demo_chat, 6)]", where ?'d = unit]
  obtain s' r' where
    "run (chat_events ''r1'' [(demo_chat, 5), (demo_chat, 6)]) demo_state =
       (Inr (s', chat_emits ''r1'' [(demo_chat, 5), (demo_chat, 6)]) :: unit outcome)"
    "get_room s' ''r1'' = Some r'"
    "length (messages r') = min (length [(demo_chat, 5 :: int), (demo_chat, 6)]) 100"
    "messages r' = drop (length [(demo_chat, 5 :: int), (demo_chat, 6)] - 100)
                     (map stamp [(demo_chat, 5), (demo_chat, 6)])"
    by blast
  then have "run (chat_events ''r1'' [(demo_chat, 5), (demo_chat, 6)]) demo_state =
       (Inr (s', chat_emits ''r1'' [(demo_chat, 5), (demo_chat, 6)]) :: unit outcome)
     \<and> get_room s' ''r1'' = Some r' \<and> length (messages r') = 2
     \<and> messages r' = [demo_chat\<lparr>msg_timestamp := Some 5\<rparr>, demo_chat\<lparr>msg_timestamp := Some 6\<rparr>]"
    by (simp add: stamp_def)
  then show ?thesis using h e by blast
qed

subsection \<open>Position reports and sync corrections\<close>

lemma position_report_present:
  assumes "get_room s roomId = Some r" and "map_of (users r) userId = Some u"
  shows "position_report roomId userId played buffering now now' s =
     (Inr (set_room roomId (reported r userId u played now) s,
           if \<bar>played - playedSeconds (videoState r)\<bar> > 3 / 10 \<and> isPlaying (videoState r) \<and> \<not> buffering
           then (if socketId u \<noteq> []
                 then [Emit (ToSocket (socketId u)) (SyncCorrection (correction_for r u played now now'))]
                 else [])
           else []) :: 'd outcome)"
  using assms
  by (simp add: position_report_def rooms_at_own users_at_own Let_def reported_def
      correction_for_def)

text \<open>
  C1, for reports by a user of the room. When the room exists, the reporting user id is
  a key of its users object and that user's socket id is not empty, the handler returns
  normally, and its effects are: exactly one sync-correction, addressed to that user's
  socket and to nothing else, when the drift exceeds 0.3, the stored state is playing
  and the report says not buffering; no effect at all otherwise. The correction carries
  the stored position and playing flag, the clock reading taken when it is built, the
  drift, and the user's quality level as this very report has updated it.
\<close>

theorem correction_iff_drift_playing_not_buffering:
  assumes "get_room s roomId = Some r" and "map_of (users r) userId = Some u"
    and "socketId u \<noteq> []"
  shows "\<exists>s'. position_report roomId userId played buffering now now' s =
      (Inr (s',
            if \<bar>played - playedSeconds (videoState r)\<bar> > 3 / 10 \<and> isPlaying (videoState r) \<and> \<not> buffering
            then [Emit (ToSocket (socketId u))
                    (SyncCorrection
                       \<lparr>sc_playedSeconds = playedSeconds (videoState r),
                        sc_isPlaying = isPlaying (videoState r),
                        sc_serverTimestamp = now',
                        sc_drift = \<bar>played - playedSeconds (videoState r)\<bar>,
                        sc_connectionQuality =
                          quality (update_quality (connectionQuality u)
                                     \<bar>played - playedSeconds (videoState r)\<bar> now)\<rparr>)]
            else []) :: 'd outcome)"
  using position_report_present [OF assms(1,2), of played buffering now now', where ?'d = 'd] assms(3)
  by (simp add: correction_for_def)

text \<open>
  C1, as the specification states it for every report on an existing room, fails: a report that
  names a user who is not in the room, with a drift of 5.5 against a playing state and
  not buffering, ends in the uncaught TypeError of line 215 and sends nothing.
\<close>

theorem correction_absent_user_counterexample:
  "get_room demo_state ''r1'' = Some demo_room
   \<and> \<bar>251 / 2 - playedSeconds (videoState demo_room)\<bar> > 3 / 10
   \<and> isPlaying (videoState demo_room)
   \<and> position_report ''r1'' ''zed'' (251 / 2) False 2000 2001 demo_state = (Inl TypeError :: unit outcome)"
  by (simp add: demo_get_room position_report_def rooms_at_own [OF demo_get_room] users_at_def
      builtin_or_none_def object_prototype_names_def demo_room_def demo_video_def)

theorem correction_iff_drift_playing_not_buffering_witness:
  "get_room demo_state ''r1'' = Some demo_room \<and> map_of (users demo_room) ''bob'' = Some bob
   \<and> socketId bob \<noteq> []
   \<and> (\<exists>s'. position_report ''r1'' ''bob'' (251 / 2) False 2000 2001 demo_state =
        (Inr (s', [Emit (ToSocket ''sockB'')
                     (SyncCorrection \<lparr>sc_playedSeconds = 120, sc_isPlaying = True,
                        sc_serverTimestamp = 2001, sc_drift = 11 / 2,
                        sc_connectionQuality = poor\<rparr>)]) :: unit outcome))"
proof -
  have g: "get_room demo_state ''r1'' = Some demo_room" by (rule demo_get_room)
  have m: "map_of (users demo_room) ''bob'' = Some bob" by (simp add: demo_room_def)
  have n: "socketId bob \<noteq> []" by (simp add: bob_def)
  from correction_iff_drift_playing_not_buffering [OF g m n, of "251 / 2" False 2000 2001, where ?'d = unit]
  obtain s' where "position_report ''r1'' ''bob'' (251 / 2) False 2000 2001 demo_state =
      (Inr (s',
            if \<bar>251 / 2 - playedSeconds (videoState demo_room)\<bar> > 3 / 10 \<and> isPlaying (videoState demo_room) \<and> \<not> False
            then [Emit (ToSocket (socketId bob))
                    (SyncCorrection
                       \<lparr>sc_playedSeconds = playedSeconds (videoState demo_room),
                        sc_isPlaying = isPlaying (videoState demo_room),
                        sc_serverTimestamp = 2001,
                        sc_drift = \<bar>251 / 2 - playedSeconds (videoState demo_room)\<bar>,
                        sc_connectionQuality =
                          quality (update_quality (connectionQuality bob)
                                     \<bar>251 / 2 - playedSeconds (videoState demo_room)\<bar> 2000)\<rparr>)]
            else []) :: unit outcome)"
    by blast
  then have "position_report ''r1'' ''bob'' (251 / 2) False 2000 2001 demo_state =
        (Inr (s', [Emit (ToSocket ''sockB'')
                     (SyncCorrection \<lparr>sc_playedSeconds = 120, sc_isPlaying = True,
                        sc_serverTimestamp = 2001, sc_drift = 11 / 2,
                        sc_connectionQuality = poor\<rparr>)]) :: unit outcome)"
    by (simp add: demo_room_def demo_video_def bob_def update_quality_def fresh_quality_def
        quality_of_def Let_def)
  with g m n show ?thesis by blast
qed

subsection \<open>Events that name a room that does not exist\<close>

text \<open>
  When no room has the id an event names and the id is not a name that every object
  inherits, the video-state, position-report and chat-message handlers return the
  state they were given and produce no effect at all, and the signal handler only
  warns; so it does when the room exists and \<open>users[to]\<close> is \<open>undefined\<close>.
\<close>

lemma missing_room_other_names:
  assumes "get_room s roomId = None" and "roomId \<notin> set object_prototype_names"
  shows "video_state_handler roomId payload now s = (Inr (s, []) :: 'd outcome)"
    and "position_report roomId userId played buffering now now' s = (Inr (s, []) :: 'd outcome)"
    and "chat_message_handler roomId message now s = (Inr (s, []) :: 'd outcome)"
    and "signal_handler roomId to (sg :: 'd signal_payload) s =
           Inr (s, [Warn (''Target user '' @ to @ '' not found in room '' @ roomId)])"
  using assms
  by (simp_all add: video_state_handler_def position_report_def chat_message_handler_def
      signal_handler_def rooms_at_def)

lemma signal_absent_user:
  assumes "get_room s roomId = Some r" and "users_at (users r) to = NoUser"
  shows "signal_handler roomId to (sg :: 'd signal_payload) s =
           Inr (s, [Warn (''Target user '' @ to @ '' not found in room '' @ roomId)])"
  using assms by (simp add: signal_handler_def rooms_at_own)

text \<open>
  C9 does not hold of the code. On a server that has just started, so that no room
  exists, events that name the room \<open>constructor\<close> pass the guard \<open>if (rooms[roomId])\<close>,
  because \<open>rooms\<close> inherits a property of that name. The chat-message, position-report
  and signal handlers then end in an uncaught TypeError; the video-state handler
  stores the stamped patch as \<open>videoState\<close> of the inherited object and emits it to the
  socket.io room \<open>constructor\<close>.
\<close>

theorem inherited_room_name_passes_guard:
  "get_room initial_state ''constructor'' = None
   \<and> chat_message_handler ''constructor'' demo_chat 5 initial_state = (Inl TypeError :: unit outcome)
   \<and> position_report ''constructor'' ''bob'' 12 False 5 6 initial_state =
       (Inl TypeError :: unit outcome)
   \<and> signal_handler ''constructor'' ''amy'' demo_signal initial_state = Inl TypeError
   \<and> video_state_handler ''constructor'' demo_patch 5 initial_state =
       (Inl (Untyped
          [Emit (ToRoom ''constructor'')
             (RawVideoStateMsg
                [(''isPlaying'', JBool True), (''playedSeconds'', JNum 12),
                 (''updatedBy'', JStr ''bob''), (''lastUpdated'', JNum 5),
                 (''serverTimestamp'', JNum 5)])]) :: unit outcome)"
  by (simp add: get_room_def initial_state_def rooms_at_def object_prototype_names_def
      chat_message_handler_def position_report_def signal_handler_def video_state_handler_def
      demo_patch_def get_property_def merge_objects_def spread_def)

theorem inherited_room_name_passes_guard_witness:
  "chat_message_handler ''constructor'' demo_chat 5 initial_state \<noteq>
     (Inr (initial_state, []) :: unit outcome)
   \<and> video_state_handler ''constructor'' demo_patch 5 initial_state \<noteq>
     (Inr (initial_state, []) :: unit outcome)"
  using inherited_room_name_passes_guard by simp

text \<open>
  In a room that exists, a signal to a user id that is not in the room but is a name
  that \<open>users\<close> inherits takes the delivery branch: nothing is logged, and the signal is
  emitted to \<open>io.to(undefined)\<close>.
\<close>

lemma signal_inherited_user_name:
  "users_at (users demo_room) ''constructor'' = BuiltinUser
   \<and> signal_handler ''r1'' ''constructor'' demo_signal demo_state =
       Inr (demo_state,
            [Emit ToUndefined
               (SignalMsg \<lparr>sig_from = ''bob'', sig_type = ''offer'', sig_data = ()\<rparr>)])"
  by (simp add: signal_handler_def rooms_at_own [OF demo_get_room] users_at_def
      builtin_or_none_def object_prototype_names_def demo_room_def demo_signal_def)

subsection \<open>Updating the video state\<close>








text \<open>
  A patch that gives \<open>playedSeconds\<close> another type than a number is merged into the stored
  state as well, but the handler then ends in the uncaught TypeError of line 200, before
  the broadcast of line 203.
\<close>

lemma video_state_played_seconds_not_a_number:
  "video_state_handler ''r1'' (JObj [(''playedSeconds'', JNull)]) 2000 demo_state =
     (Inl (TypeErrorAfterMerge ''r1'' [(''playedSeconds'', JNull)] 2000) :: unit outcome)"
  by (simp add: video_state_handler_def rooms_at_own [OF demo_get_room] absent_or_def
      get_property_def)

subsection \<open>Connection quality\<close>




lemma rooms_at_cases:
  obtains (none) "rooms_at s k = NoRoom" and "get_room s k = None"
  | (builtin) "rooms_at s k = BuiltinRoom" and "get_room s k = None"
  | (own) r where "rooms_at s k = OwnRoom r" and "get_room s k = Some r"
  by (cases "get_room s k"; cases "k \<in> set object_prototype_names") (auto simp: rooms_at_def)




lemma entry_of_counters [simp]:
  "entry_of (s\<lparr>totalMessages := n\<rparr>) roomId userId = entry_of s roomId userId"
  "entry_of (s\<lparr>totalRoomsCreated := n\<rparr>) roomId userId = entry_of s roomId userId"
  by (simp_all add: entry_of_def)




lemma buffer_state_same:
  assumes "buffer_state sid rid uid b s = (Inr (s1, out) :: 'd outcome)"
  shows "s1 = s"
  using assms by (auto simp: buffer_state_def split: room_lookup.splits if_splits)

lemma signal_same:
  assumes "signal_handler rid to sg s = (Inr (s1, out) :: 'd outcome)"
  shows "s1 = s"
  using assms
  by (auto simp: signal_handler_def split: room_lookup.splits user_lookup.splits if_splits)









lemma reports_are_no_joins:
  "list_all (\<lambda>e. \<not> joins roomId userId e) (report_events roomId userId reports)"
  by (induction reports) (auto simp: report_events_def)








subsection \<open>Rooms, users and the host\<close>

lemma object_keys_simps:
  "object_keys ([] :: (string \<times> 'a) list) = []"
  "object_keys [(''__proto__'', x)] = []"
  "object_keys [(''amy'', a), (''bob'', b), (''cat'', c)] = [''amy'', ''bob'', ''cat'']"
  "object_keys [(''bob'', b), (''cat'', c)] = [''bob'', ''cat'']"
  by (simp_all add: object_keys_def is_array_index_def is_digit_def)

text \<open>
  C3 does not hold of the code. On a server that has just started, a join to room \<open>r1\<close>
  under the user id \<open>__proto__\<close> creates the room with that id as \<open>hostId\<close>; the
  assignment of line 158 then replaces the prototype of \<open>users\<close> and creates no key. The
  room exists with no user in it: \<open>Object.keys\<close> and \<open>Object.values\<close> of its users are empty,
  the user list sent out is empty and \<open>hostId\<close> is not a key. When the socket
  disconnects, the handler finds no user for it and returns with the store as it was:
  the room is never deleted.
\<close>

theorem room_without_users_survives:
  "join_room ''sockE'' ''r1'' ''__proto__'' ''Eve'' 0 0 0 0 initial_state =
     (Inr (eve_state,
           [Emit (ToRoom ''r1'') (UpdateUsers []),
            Emit (ToSender ''sockE'')
              (SyncState \<lparr>ss_videoState = videoState (new_room ''__proto__'' 0 0 0 0),
                          ss_messages = [], ss_users = [], ss_hostId = ''__proto__''\<rparr>),
            Emit (ToSender ''sockE'') (HostAssigned True),
            Emit (ToRoomExcept ''r1'' ''sockE'') (UserConnected ''__proto__'')]) :: unit outcome)
   \<and> get_room eve_state ''r1'' = Some eve_room
   \<and> object_keys (users eve_room) = []
   \<and> object_values (users eve_room) = []
   \<and> hostId eve_room = ''__proto__''
   \<and> hostId eve_room \<notin> set (object_keys (users eve_room))
   \<and> disconnecting ''sockE'' [''sockE'', ''r1''] eve_state = (Inr (eve_state, []) :: unit outcome)"
proof -
  have k: "object_keys (users eve_room) = []"
    by (simp add: eve_room_def object_keys_simps)
  have v: "object_values (users eve_room) = []"
    by (simp add: object_values_def k List.map_filter_simps)
  have g: "get_room eve_state ''r1'' = Some eve_room"
    by (simp add: get_room_def eve_state_def)
  have n: "get_room eve_state ''sockE'' = None"
    by (simp add: get_room_def eve_state_def)
  have j: "join_room ''sockE'' ''r1'' ''__proto__'' ''Eve'' 0 0 0 0 initial_state =
     (Inr (eve_state,
           [Emit (ToRoom ''r1'') (UpdateUsers []),
            Emit (ToSender ''sockE'')
              (SyncState \<lparr>ss_videoState = videoState (new_room ''__proto__'' 0 0 0 0),
                          ss_messages = [], ss_users = [], ss_hostId = ''__proto__''\<rparr>),
            Emit (ToSender ''sockE'') (HostAssigned True),
            Emit (ToRoomExcept ''r1'' ''sockE'') (UserConnected ''__proto__'')]) :: unit outcome)"
    using v k
    by (simp add: join_room_def rooms_at_def get_room_def initial_state_def
        object_prototype_names_def set_room_def eve_state_def eve_room_def eve_def new_room_def)
  have d: "disconnecting ''sockE'' [''sockE'', ''r1''] eve_state = (Inr (eve_state, []) :: unit outcome)"
    using k
    by (simp add: disconnecting_def leave_room_def rooms_at_def g n object_prototype_names_def
        find_user_by_socket_def)
  from j g k v d show ?thesis
    by (simp add: eve_room_def new_room_def)
qed

theorem room_without_users_survives_witness:
  "(\<exists>r. get_room eve_state ''r1'' = Some r \<and> object_keys (users r) = [])
   \<and> run [JoinRoom ''sockE'' ''r1'' ''__proto__'' ''Eve'' 0 0 0 0,
           Disconnecting ''sockE'' [''sockE'', ''r1'']] initial_state =
       (Inr (eve_state,
           [Emit (ToRoom ''r1'') (UpdateUsers []),
            Emit (ToSender ''sockE'')
              (SyncState \<lparr>ss_videoState = videoState (new_room ''__proto__'' 0 0 0 0),
                          ss_messages = [], ss_users = [], ss_hostId = ''__proto__''\<rparr>),
            Emit (ToSender ''sockE'') (HostAssigned True),
            Emit (ToRoomExcept ''r1'' ''sockE'') (UserConnected ''__proto__'')]) :: unit outcome)"
  using room_without_users_survives by simp

text \<open>
  Two more inputs on which the lifecycle differs. A user who joined under the empty
  user id is found by the disconnecting handler, but \<open>if (userId)\<close> is false for the
  empty string, so the entry and the room stay. A join to a room id that \<open>rooms\<close>
  inherits creates no room and ends in the uncaught TypeError of line 158.
\<close>

lemma empty_user_id_never_leaves:
  "\<exists>s r out. join_room ''sockE'' ''r1'' [] ''Eve'' 0 0 0 0 initial_state =
            (Inr (s, out) :: unit outcome)
        \<and> get_room s ''r1'' = Some r \<and> object_keys (users r) = [[]]
        \<and> find_user_by_socket (users r) ''sockE'' = Some []
        \<and> disconnecting ''sockE'' [''sockE'', ''r1''] s = (Inr (s, []) :: unit outcome)"
  by (simp add: join_room_def rooms_at_def get_room_def initial_state_def
      object_prototype_names_def set_room_def new_room_def object_keys_def is_array_index_def
      disconnecting_def leave_room_def find_user_by_socket_def)

lemma inherited_room_name_join:
  "join_room sid ''constructor'' userId uname t1 t2 t3 t4 initial_state = (Inl TypeError :: 'd outcome)"
  by (simp add: join_room_def rooms_at_def get_room_def initial_state_def
      object_prototype_names_def)

text \<open>
  The lifecycle on the other inputs. A join leaves the room existing with the joiner's
  entry in it. When the disconnecting handler finds the leaving socket's user in a
  room and no key remains, the room is gone from the store; when keys remain, the room
  stays with exactly the remaining entries, and the effects are the user-disconnected
  and update-users broadcasts, followed, when the leaver was host, by one host-changed
  broadcast to the room and one host-assigned notice to the socket of the new host, who
  is the first remaining key. In every run from the empty store that has no join under
  the user id \<open>__proto__\<close>, every room the store holds has a key and its \<open>hostId\<close> is one of
  the keys.
\<close>

lemma set_object_keys: "set (object_keys al) = set (map fst al) - {''__proto__''}"
  by (auto simp: object_keys_def Let_def)

lemma list_all_update_entry:
  "list_all P al \<Longrightarrow> P (k, v) \<Longrightarrow> list_all P (AList.update k v al)"
  by (induction al) auto

lemma list_all_delete_entry: "list_all P al \<Longrightarrow> list_all P (AList.delete k al)"
  by (simp add: AList.delete_eq list_all_iff)

lemma room_ok_iff:
  "room_ok r \<longleftrightarrow> hostId r \<in> set (map fst (users r)) \<and> hostId r \<noteq> ''__proto__''"
proof -
  have "object_keys (users r) \<noteq> [] \<longleftrightarrow> set (object_keys (users r)) \<noteq> {}" by simp
  then show ?thesis
    unfolding room_ok_def by (auto simp: set_object_keys)
qed

lemma store_ok_set_room: "store_ok s \<Longrightarrow> room_ok r \<Longrightarrow> store_ok (set_room k r s)"
  by (simp add: store_ok_def set_room_def list_all_update_entry)

lemma store_ok_get_room: "store_ok s \<Longrightarrow> get_room s k = Some r \<Longrightarrow> room_ok r"
  by (auto simp: store_ok_def get_room_def list_all_iff dest!: map_of_SomeD)

lemma store_ok_counters [simp]:
  "store_ok (s\<lparr>totalMessages := n\<rparr>) = store_ok s"
  "store_ok (s\<lparr>totalRoomsCreated := n\<rparr>) = store_ok s"
  by (simp_all add: store_ok_def)

lemma store_ok_initial: "store_ok initial_state"
  by (simp add: store_ok_def initial_state_def)

lemma join_room_member:
  assumes "rooms_at s0 roomId \<noteq> BuiltinRoom"
  shows "\<exists>s' r' out'.
      join_room sid roomId userId uname t1 t2 t3 t4 s0 = (Inr (s', out') :: 'd outcome)
    \<and> get_room s' roomId = Some r'
    \<and> map_of (users r') userId =
        Some \<lparr>id_user = userId, username = uname, socketId = sid, connectionQuality = None\<rparr>
    \<and> (get_room s0 roomId = None \<longrightarrow> hostId r' = userId)"
proof (cases "get_room s0 roomId")
  case None
  with assms show ?thesis
    by (simp add: join_room_def get_set_room_same update_conv' new_room_def)
next
  case (Some r)
  with assms show ?thesis
    by (simp add: join_room_def get_set_room_same update_conv')
qed

lemma join_room_ok:
  assumes "store_ok s" and "join_room sid roomId userId uname t1 t2 t3 t4 s = (Inr (s', out) :: 'd outcome)"
    and "userId \<noteq> ''__proto__''"
  shows "store_ok s'"
proof (cases rule: rooms_at_cases [of s roomId])
  case none
  let ?u = "\<lparr>id_user = userId, username = uname, socketId = sid, connectionQuality = None\<rparr>"
  have "room_ok ((new_room userId t1 t2 t3 t4)\<lparr>users := AList.update userId ?u (users (new_room userId t1 t2 t3 t4))\<rparr>)"
    using assms(3) by (simp add: room_ok_iff new_room_def)
  with assms none show ?thesis
    by (auto simp: join_room_def intro!: store_ok_set_room)
next
  case builtin
  with assms show ?thesis by (simp add: join_room_def)
next
  case (own r)
  let ?u = "\<lparr>id_user = userId, username = uname, socketId = sid, connectionQuality = None\<rparr>"
  from store_ok_get_room [OF assms(1) own(2)] have "room_ok r" .
  then have "room_ok (r\<lparr>users := AList.update userId ?u (users r)\<rparr>)"
    by (auto simp: room_ok_iff update_keys)
  with assms own show ?thesis
    by (auto simp: join_room_def intro!: store_ok_set_room)
qed

lemma video_state_ok:
  assumes "store_ok s" and "video_state_handler roomId payload now s = (Inr (s', out) :: 'd outcome)"
  shows "store_ok s'"
proof (cases rule: rooms_at_cases [of s roomId])
  case none
  with assms show ?thesis by (simp add: video_state_handler_def)
next
  case builtin
  with assms show ?thesis
    by (simp add: video_state_handler_def Let_def split: option.splits jsval.splits)
next
  case (own r)
  from store_ok_get_room [OF assms(1) own(2)] have "room_ok (r\<lparr>videoState := v\<rparr>)" for v
    by (simp add: room_ok_iff)
  with assms own show ?thesis
    by (auto simp: video_state_handler_def Let_def split: if_splits intro!: store_ok_set_room)
qed

lemma position_report_ok:
  assumes "store_ok s"
    and "position_report roomId userId played buffering now now' s = (Inr (s', out) :: 'd outcome)"
  shows "store_ok s'"
proof (cases rule: rooms_at_cases [of s roomId])
  case (own r)
  from store_ok_get_room [OF assms(1) own(2)] have ok: "room_ok r" .
  show ?thesis
  proof (cases "users_at (users r) userId")
    case (OwnUser u)
    have "room_ok (r\<lparr>users := AList.update userId u' (users r)\<rparr>)" for u'
      using ok by (auto simp: room_ok_iff update_keys)
    with assms own OwnUser show ?thesis
      by (auto simp: position_report_def Let_def intro!: store_ok_set_room)
  qed (use assms own in \<open>simp_all add: position_report_def\<close>)
qed (use assms in \<open>simp_all add: position_report_def\<close>)

lemma chat_message_ok:
  assumes "store_ok s" and "chat_message_handler roomId m now s = (Inr (s', out) :: 'd outcome)"
  shows "store_ok s'"
proof (cases rule: rooms_at_cases [of s roomId])
  case (own r)
  from store_ok_get_room [OF assms(1) own(2)] have "room_ok (r\<lparr>messages := ms\<rparr>)" for ms
    by (simp add: room_ok_iff)
  with assms own show ?thesis
    by (auto simp: chat_message_handler_def Let_def intro!: store_ok_set_room)
qed (use assms in \<open>simp_all add: chat_message_handler_def\<close>)

lemma leave_room_last:
  assumes "get_room s1 roomId = Some r1" and "find_user_by_socket (users r1) sid = Some leaver"
    and "leaver \<noteq> []" and "object_keys (AList.delete leaver (users r1)) = []"
  shows "leave_room sid roomId (s1, acc) =
           (Inr (s1\<lparr>rooms := AList.delete roomId (rooms s1)\<rparr>,
                 acc @ [Emit (ToRoom roomId) (UserDisconnected leaver),
                        Emit (ToRoom roomId) (UpdateUsers [])]) :: 'd outcome)"
  using assms
  by (simp add: leave_room_def rooms_at_own Let_def object_values_def)

lemma leave_room_others:
  assumes "get_room s1 roomId = Some r1" and "find_user_by_socket (users r1) sid = Some leaver"
    and "leaver \<noteq> []" and "object_keys (AList.delete leaver (users r1)) = k # ks"
    and "map_of (AList.delete leaver (users r1)) k = Some u"
  shows "leave_room sid roomId (s1, acc) =
           (Inr (set_room roomId
                   (r1\<lparr>users := AList.delete leaver (users r1),
                       hostId := (if hostId r1 = leaver then k else hostId r1)\<rparr>) s1,
                 acc @ [Emit (ToRoom roomId) (UserDisconnected leaver),
                        Emit (ToRoom roomId)
                          (UpdateUsers (object_values (AList.delete leaver (users r1))))]
                     @ (if hostId r1 = leaver
                        then [Emit (ToRoom roomId) (HostChanged k (username u)),
                              Emit (ToSocket (socketId u)) (HostAssigned True)]
                        else [])) :: 'd outcome)"
  using assms by (simp add: leave_room_def rooms_at_own Let_def)

lemma leave_room_ok:
  assumes "store_ok s" and "leave_room sid roomId (s, out) = (Inr (s', out') :: 'd outcome)"
  shows "store_ok s'"
proof (cases rule: rooms_at_cases [of s roomId])
  case (own r)
  from store_ok_get_room [OF assms(1) own(2)] have rok: "room_ok r" .
  show ?thesis
  proof (cases "find_user_by_socket (users r) sid")
    case None
    with assms own show ?thesis by (simp add: leave_room_def)
  next
    case (Some leaver)
    show ?thesis
    proof (cases "leaver = []")
      case True
      with assms own Some show ?thesis by (simp add: leave_room_def)
    next
      case False
      let ?us = "AList.delete leaver (users r)"
      show ?thesis
      proof (cases "object_keys ?us")
        case Nil
        have "store_ok (s\<lparr>rooms := AList.delete roomId (rooms s)\<rparr>)"
          using assms(1) by (simp add: store_ok_def list_all_delete_entry)
        with assms(2) leave_room_last [OF own(2) Some False Nil, of out]
        show ?thesis by simp
      next
        case (Cons k ks)
        then have kin: "k \<in> set (object_keys ?us)" by simp
        then have "k \<in> set (map fst ?us)" by (simp add: set_object_keys)
        then obtain u where u: "map_of ?us k = Some u"
          by (metis domD dom_map_of_conv_image_fst set_map)
        have a: "room_ok (r\<lparr>users := ?us, hostId := k\<rparr>)"
          using kin by (simp add: room_ok_def Cons)
        have b: "hostId r \<noteq> leaver \<Longrightarrow> room_ok (r\<lparr>users := ?us, hostId := hostId r\<rparr>)"
          using rok by (auto simp: room_ok_iff delete_keys)
        from a b have "room_ok (r\<lparr>users := ?us, hostId := (if hostId r = leaver then k else hostId r)\<rparr>)"
          by simp
        from store_ok_set_room [OF assms(1) this, of roomId]
          assms(2) leave_room_others [OF own(2) Some False Cons u, of out]
        show ?thesis by simp
      qed
    qed
  qed
qed (use assms in \<open>simp_all add: leave_room_def\<close>)

lemma leave_rooms_ok:
  assumes "store_ok s" and "leave_rooms sid rids (s, out) = (Inr (s', out') :: 'd outcome)"
  shows "store_ok s'"
  using assms
proof (induction rids arbitrary: s out)
  case Nil
  then show ?case by simp
next
  case (Cons rid rids)
  from Cons.prems(2) obtain s2 out2 where
    a: "leave_room sid rid (s, out) = (Inr (s2, out2) :: 'd outcome)"
    and b: "leave_rooms sid rids (s2, out2) = (Inr (s', out') :: 'd outcome)"
    by (auto split: sum.splits)
  from Cons.IH [OF leave_room_ok [OF Cons.prems(1) a] b] show ?case .
qed

lemma handle_ok:
  assumes "store_ok s" and "handle e s = (Inr (s', out) :: 'd outcome)"
    and "\<not> joins_as ''__proto__'' e"
  shows "store_ok s'"
proof (cases e)
  case (JoinRoom sid rid uid uname t1 t2 t3 t4)
  with assms join_room_ok [of s sid rid uid uname t1 t2 t3 t4 s' out] show ?thesis by simp
next
  case (VideoStateEv rid payload now)
  with assms video_state_ok [of s rid payload now s' out] show ?thesis by simp
next
  case (PositionReport rid uid played buffering now now')
  with assms position_report_ok [of s rid uid played buffering now now' s' out]
  show ?thesis by simp
next
  case (BufferState sid rid uid b)
  with assms buffer_state_same [of sid rid uid b s s' out] show ?thesis by simp
next
  case (ChatMessageEv rid m now)
  with assms chat_message_ok [of s rid m now s' out] show ?thesis by simp
next
  case (Signal rid to sg)
  with assms signal_same [of rid to sg s s' out] show ?thesis by simp
next
  case (Disconnecting sid rids)
  with assms leave_rooms_ok [of s sid rids "[]" s' out] show ?thesis
    by (simp add: disconnecting_def)
qed

lemma run_ok:
  assumes "store_ok s" and "list_all (\<lambda>e. \<not> joins_as ''__proto__'' e) evs"
    and "run evs s = (Inr (s', out) :: 'd outcome)"
  shows "store_ok s'"
  using assms
proof (induction evs arbitrary: s out)
  case Nil
  then show ?case by simp
next
  case (Cons e evs)
  from Cons.prems(3) obtain s1 out1 out2 where
    h: "handle e s = (Inr (s1, out1) :: 'd outcome)"
    and r: "run evs s1 = (Inr (s', out2) :: 'd outcome)"
    by (auto split: sum.splits prod.splits)
  from Cons.prems(2) have e: "\<not> joins_as ''__proto__'' e"
    and rest: "list_all (\<lambda>e. \<not> joins_as ''__proto__'' e) evs" by simp_all
  from Cons.IH [OF handle_ok [OF Cons.prems(1) h e] rest r] show ?case .
qed

lemma rooms_have_host_without_proto_joins:
  assumes "list_all (\<lambda>e. \<not> joins_as ''__proto__'' e) evs"
    and "run evs initial_state = (Inr (s, out) :: 'd outcome)"
    and "get_room s roomId = Some r"
  shows "object_keys (users r) \<noteq> [] \<and> hostId r \<in> set (object_keys (users r))"
  using store_ok_get_room [OF run_ok [OF store_ok_initial assms(1,2)] assms(3)]
  by (simp add: room_ok_def)

lemma demo_trace_runs:
  "\<exists>s r. run demo_trace initial_state =
       (Inr (s, [Emit (ToRoom ''r1'') (UpdateUsers [amy]),
                 Emit (ToSender ''sockA'')
                   (SyncState \<lparr>ss_videoState = videoState (new_room ''amy'' 0 0 0 0),
                               ss_messages = [], ss_users = [amy], ss_hostId = ''amy''\<rparr>),
                 Emit (ToSender ''sockA'') (HostAssigned True),
                 Emit (ToRoomExcept ''r1'' ''sockA'') (UserConnected ''amy''),
                 Emit (ToRoom ''r1'') (UpdateUsers [amy, bob]),
                 Emit (ToSender ''sockB'')
                   (SyncState \<lparr>ss_videoState = videoState (new_room ''amy'' 0 0 0 0),
                               ss_messages = [], ss_users = [amy, bob], ss_hostId = ''amy''\<rparr>),
                 Emit (ToRoomExcept ''r1'' ''sockB'') (UserConnected ''bob''),
                 Emit (ToRoom ''r1'') (UpdateUsers [amy, bob, cat]),
                 Emit (ToSender ''sockC'')
                   (SyncState \<lparr>ss_videoState = videoState (new_room ''amy'' 0 0 0 0),
                               ss_messages = [], ss_users = [amy, bob, cat], ss_hostId = ''amy''\<rparr>),
                 Emit (ToRoomExcept ''r1'' ''sockC'') (UserConnected ''cat''),
                 Emit (ToRoom ''r1'') (UserDisconnected ''amy''),
                 Emit (ToRoom ''r1'') (UpdateUsers [bob, cat]),
                 Emit (ToRoom ''r1'') (HostChanged ''bob'' ''Bob''),
                 Emit (ToSocket ''sockB'') (HostAssigned True)]) :: unit outcome)
      \<and> get_room s ''r1'' = Some r \<and> users r = [(''bob'', bob), (''cat'', cat)] \<and> hostId r = ''bob''"
  by (simp add: demo_trace_def initial_state_def join_room_def disconnecting_def leave_room_def
      find_user_by_socket_def rooms_at_def get_room_def set_room_def new_room_def Let_def
      object_values_def object_keys_def is_array_index_def is_digit_def
      object_prototype_names_def amy_def bob_def cat_def)

section \<open>Properties of the client synchronization controller\<close>

text \<open>
  C2, as the code has it. With the player ready and a state that carries a non-zero
  server timestamp, as every state the server has stamped does, the target is the
  stored position plus \<open>min ((now - serverTimestamp) / 1000) 2\<close> when the state is playing
  and the stored position itself otherwise. The effect seeks, and then to that target,
  exactly when the local position is more than 0.3 away from the target and, in
  addition, the state was authored by someone else or the local position is more than
  2.0 away from the stored position. A playing state at 120 read 400 ms after its
  server timestamp has the target 120.4.
\<close>

theorem sync_seek_rule:
  assumes "isReady view" and "playerRef view = Some localPosition"
    and "serverTimestamp vs = Some ts" and "ts \<noteq> 0"
  shows "adjusted_target vs now =
           (if isPlaying vs then playedSeconds vs + min (of_int (now - ts) / 1000) 2
            else playedSeconds vs)
       \<and> snd (sync_effect view (Some vs) userId now) =
           (if \<bar>localPosition - adjusted_target vs now\<bar> > 3 / 10
               \<and> (updatedBy vs \<noteq> userId \<or> \<bar>localPosition - playedSeconds vs\<bar> > 2)
            then [SeekTo (adjusted_target vs now), ResetAfter 1000] else [])
       \<and> (isPlaying vs \<and> playedSeconds vs = 120 \<and> now = ts + 400 \<longrightarrow>
            adjusted_target vs now = 602 / 5)"
  using assms by (auto simp: adjusted_target_def sync_effect_def Let_def)

theorem sync_seek_rule_witness:
  "isReady (ready_view 100 False) \<and> playerRef (ready_view 100 False) = Some 100
   \<and> serverTimestamp demo_video = Some 1000 \<and> (1000 :: int) \<noteq> 0
   \<and> isPlaying demo_video \<and> playedSeconds demo_video = 120
   \<and> adjusted_target demo_video 1400 = 602 / 5
   \<and> snd (sync_effect (ready_view 100 False) (Some demo_video) ''bob'' 1400) =
       [SeekTo (602 / 5), ResetAfter 1000]"
proof -
  have a: "isReady (ready_view 100 False)" "playerRef (ready_view 100 False) = Some 100"
    by (simp_all add: ready_view_def)
  have b: "serverTimestamp demo_video = Some 1000" "(1000 :: int) \<noteq> 0"
    "isPlaying demo_video" "playedSeconds demo_video = 120" "updatedBy demo_video = ''amy''"
    by (simp_all add: demo_video_def)
  note R = sync_seek_rule [OF a b(1,2), of 1400 "''bob''"]
  from R b(3,4) have t: "adjusted_target demo_video 1400 = 602 / 5" by simp
  from R have "snd (sync_effect (ready_view 100 False) (Some demo_video) ''bob'' 1400) =
           (if \<bar>100 - adjusted_target demo_video 1400\<bar> > 3 / 10
               \<and> (updatedBy demo_video \<noteq> ''bob'' \<or> \<bar>100 - playedSeconds demo_video\<bar> > 2)
            then [SeekTo (adjusted_target demo_video 1400), ResetAfter 1000] else [])"
    by blast
  then have "snd (sync_effect (ready_view 100 False) (Some demo_video) ''bob'' 1400) =
       [SeekTo (602 / 5), ResetAfter 1000]"
    by (simp add: t b)
  with a b t show ?thesis by blast
qed

text \<open>
  C2, as the specification states it, fails where it makes the seek unconditional beyond 2.0:
  a self-authored playing state at 100, read 2000 ms after its timestamp, has the target
  102; a player at 102.1 is more than 2.0 away from the stored position and yet no seek
  is issued, because it is within 0.3 of the target.
\<close>

theorem forced_resync_not_unconditional_counterexample:
  "updatedBy own_video = ''amy''
   \<and> \<bar>1021 / 10 - playedSeconds own_video\<bar> > 2
   \<and> adjusted_target own_video 3000 = 102
   \<and> sync_effect (ready_view (1021 / 10) False) (Some own_video) ''amy'' 3000 =
       (ready_view (1021 / 10) False, [])"
  by (simp add: sync_effect_def adjusted_target_def own_video_def ready_view_def Let_def)

text \<open>
  C8 does not hold of the code: with the local buffering flag set, a playing state at
  120 authored by another user and read 400 ms after its timestamp makes the effect
  seek a player standing at 100 to 120.4.
\<close>

theorem sync_effect_seeks_while_buffering:
  "localBuffering (ready_view 100 True)
   \<and> snd (sync_effect (ready_view 100 True) (Some demo_video) ''bob'' 1400) =
       [SeekTo (602 / 5), ResetAfter 1000]"
  by (simp add: sync_effect_def adjusted_target_def demo_video_def ready_view_def Let_def)

theorem sync_effect_seeks_while_buffering_witness:
  "localBuffering (ready_view 100 True)
   \<and> SeekTo (602 / 5) \<in> set (snd (sync_effect (ready_view 100 True) (Some demo_video) ''bob'' 1400))"
  using sync_effect_seeks_while_buffering by simp

text \<open>The effect never reads the buffering flag: its actions are the same whatever the flag is.\<close>

lemma sync_effect_ignores_buffering:
  "snd (sync_effect (view\<lparr>localBuffering := b\<rparr>) vso userId now) = snd (sync_effect view vso userId now)"
  by (simp add: sync_effect_def Let_def split: option.splits)

section \<open>Properties of the peer connection manager\<close>



lemma timers_for_append [simp]:
  "timers_for p (s\<lparr>timers := xs @ ys\<rparr>) = filter (\<lambda>t. peer_of t = p) xs @ filter (\<lambda>t. peer_of t = p) ys"
  by (simp add: timers_for_def)


lemma sweep_peer_skips:
  assumes "map_of (reconnectTimeouts s) p \<noteq> None \<or> \<not> (st = Failed \<or> st = Disconnected)"
  shows "sweep_peer (p, st) s = s"
  using assms by (auto simp: sweep_peer_def split: option.splits)

lemma sweep_peer_cases:
  "sweep_peer (q, st) s = s \<or>
   (map_of (reconnectTimeouts s) q = None \<and>
    sweep_peer (q, st) s =
      s\<lparr>timers := timers s @ [\<lparr>handle_of = nextHandle s, peer_of = q, delay_ms = 2000\<rparr>],
        nextHandle := Suc (nextHandle s),
        reconnectTimeouts := AList.update q (nextHandle s) (reconnectTimeouts s)\<rparr>)"
  by (auto simp: sweep_peer_def set_timeout_def split: option.splits)



lemma sweep_peer_frame [simp]:
  "peerConnections (sweep_peer e s) = peerConnections s"
  "isPageVisible (sweep_peer e s) = isPageVisible s"
  by (cases e; auto simp: sweep_peer_def set_timeout_def split: option.splits)+

lemma fold_sweep_frame [simp]:
  "peerConnections (fold sweep_peer es s) = peerConnections s"
  "isPageVisible (fold sweep_peer es s) = isPageVisible s"
  by (induction es arbitrary: s) simp_all

lemma sweep_peer_other:
  assumes "q \<noteq> p"
  shows "timers_for p (sweep_peer (q, st) s) = timers_for p s"
    and "map_of (reconnectTimeouts (sweep_peer (q, st) s)) p = map_of (reconnectTimeouts s) p"
  using assms sweep_peer_cases [of q st s]
  by (auto simp: timers_for_def update_conv')

lemma fold_sweep_pending:
  assumes "map_of (reconnectTimeouts s) p = Some h"
  shows "timers_for p (fold sweep_peer es s) = timers_for p s
       \<and> map_of (reconnectTimeouts (fold sweep_peer es s)) p = Some h"
  using assms
proof (induction es arbitrary: s)
  case Nil
  then show ?case by simp
next
  case (Cons e es)
  obtain q st where e: "e = (q, st)" by (cases e)
  show ?case
  proof (cases "q = p")
    case True
    with Cons.prems e have "sweep_peer e s = s" by (simp add: sweep_peer_skips)
    with Cons show ?thesis by simp
  next
    case False
    from sweep_peer_other [OF False, of st s] Cons.prems e
    have "timers_for p (sweep_peer e s) = timers_for p s"
      and m: "map_of (reconnectTimeouts (sweep_peer e s)) p = Some h" by simp_all
    with Cons.IH [OF m] show ?thesis by simp
  qed
qed


lemma timers_tracked_frame [simp]:
  "timers_tracked (s\<lparr>peerConnections := pcs\<rparr>) = timers_tracked s"
  "timers_tracked (s\<lparr>isPageVisible := b\<rparr>) = timers_tracked s"
  by (simp_all add: timers_tracked_def)


lemma cleanupPeerConnection_tracked [simp]:
  "timers_tracked (cleanupPeerConnection p s) = timers_tracked s"
  by (simp add: cleanupPeerConnection_def split: option.splits)








lemma health_sweep_pending:
  assumes "map_of (reconnectTimeouts s) p = Some h"
  shows "timers_for p (health_sweep s) = timers_for p s
       \<and> map_of (reconnectTimeouts (health_sweep s)) p = Some h"
  using fold_sweep_pending [OF assms] assms by (simp add: health_sweep_def)





lemma connections_own_frame [simp]:
  "connections_own (s\<lparr>timers := ts\<rparr>) = connections_own s"
  "connections_own (s\<lparr>reconnectTimeouts := rs\<rparr>) = connections_own s"
  "connections_own (s\<lparr>isPageVisible := b\<rparr>) = connections_own s"
  "connections_own (s\<lparr>nextHandle := n\<rparr>) = connections_own s"
  by (simp_all add: connections_own_def)

lemma connections_own_clear [simp]: "connections_own (clear_timeout h s) = connections_own s"
  by (simp add: clear_timeout_def)

















text \<open>
  While a handle is recorded for a peer, a sweep sets no timer for it and leaves the
  handle alone. The cleanup of the visibility effect clears the timers and keeps their
  handles recorded, so after it a sweep sets no timer for a peer whose connection is
  still disconnected, although none is set.
\<close>

lemma recorded_handle_blocks_sweep:
  assumes "map_of (reconnectTimeouts s) p = Some h"
  shows "timers_for p (health_sweep s) = timers_for p s
       \<and> map_of (reconnectTimeouts (health_sweep s)) p = Some h"
  by (rule health_sweep_pending [OF assms])

lemma cleared_handle_stays_recorded:
  "timers_for ''bob'' (rtc_run stale_rtc_events rtc_initial) = []
   \<and> map_of (peerConnections (rtc_run stale_rtc_events rtc_initial)) ''bob'' = Some Disconnected
   \<and> map_of (reconnectTimeouts (rtc_run stale_rtc_events rtc_initial)) ''bob'' = Some 1
   \<and> timers_for ''bob'' (health_sweep (rtc_run stale_rtc_events rtc_initial)) = []"
  by (simp add: rtc_run_def stale_rtc_events_def rtc_initial_def createPeerConnection_def
      connection_state_change_def health_sweep_def sweep_peer_def set_timeout_def
      visibility_cleanup_def clear_timeout_def timers_for_def object_prototype_names_def
      object_entries_def object_values_def object_keys_def is_array_index_def is_digit_def
     )

end
